theory Spec2Isabelle
  imports Main "HOL-Library.Sublist" "HOL-Library.Word"
begin

text \<open>
  A model of the authentication and authorization core of the GoAhead web server, auth.c:
  the ability resolver, the credential verifier, form login, the Basic and Digest protocol
  adapters, the authorization gate and the saving of the store. Each function of auth.c is
  a function of the same name here; state that the C code changes through pointers is
  passed in and returned. \<open>assure(...)\<close> is a diagnostic assertion of goahead.h, not a test
  that changes the control flow, and has no counterpart in the model. The sections on
  definitions come first, the properties after them.
\<close>

section \<open>Ability resolver (auth.c: computeAbilities, computeUserAbilities)\<close>

text \<open>
  The role table is the module-level hash \<open>roles\<close>: it maps a role name to the keys of
  that role's ability hash, in the order \<open>hashFirst\<close>/\<open>hashNext\<close> visit them. The handle
  \<open>roles\<close> is negative until \<open>websOpenAuth\<close> has run; that state is \<open>None\<close>.
\<close>

type_synonym roletab = "(string \<rightharpoonup> string list) option"

text \<open>
  The hash under construction is held by value: its handle (as \<open>hashCreate\<close> returned it)
  and its keys. \<open>errors\<close> collects the messages handed to \<open>error()\<close>.
\<close>

record closure =
  handle :: int
  keys :: "string list"
  errors :: "string list"

text \<open>
  \<open>hashEnter(abilities, role, valueInteger(0), 0)\<close>: a key that is already present is
  not entered twice; a negative handle names no table, so nothing is stored.
\<close>

definition hashEnter :: "closure \<Rightarrow> string \<Rightarrow> closure" where
  "hashEnter st k =
     (if handle st < 0 \<or> k \<in> set (keys st) then st else st\<lparr>keys := keys st @ [k]\<rparr>)"

definition error_msg :: "closure \<Rightarrow> string \<Rightarrow> closure" where
  "error_msg st m = st\<lparr>errors := errors st @ [m]\<rparr>"

text \<open>The two measures of the termination proof below.\<close>

definition depth_measure :: "(roletab \<times> closure \<times> string \<times> int) + (roletab \<times> closure \<times> string list \<times> int) \<Rightarrow> nat" where
  "depth_measure x =
     (case x of
        Inl (roles, st, role, depth) \<Rightarrow> (if depth > 20 then 0 else 2 * nat (21 - depth) + 1)
      | Inr (roles, st, ks, depth) \<Rightarrow> 2 * nat (21 - depth))"

definition keys_measure :: "(roletab \<times> closure \<times> string \<times> int) + (roletab \<times> closure \<times> string list \<times> int) \<Rightarrow> nat" where
  "keys_measure x =
     (case x of
        Inl (roles, st, role, depth) \<Rightarrow> 0
      | Inr (roles, st, ks, depth) \<Rightarrow> length ks)"

text \<open>
  \<open>computeAbilities(abilities, role, depth)\<close>. The \<open>for\<close> loop over the role's keys is
  \<open>abilitiesLoop\<close>; it passes \<open>++depth\<close>, so \<open>depth\<close> grows by one with every key visited.
\<close>

function computeAbilities :: "roletab \<Rightarrow> closure \<Rightarrow> string \<Rightarrow> int \<Rightarrow> closure"
  and abilitiesLoop :: "roletab \<Rightarrow> closure \<Rightarrow> string list \<Rightarrow> int \<Rightarrow> closure" where
  "computeAbilities roles st role depth =
     (if depth > 20 then error_msg st (''Recursive ability definition for '' @ role)
      else (case roles of
              None \<Rightarrow> st
            | Some tab \<Rightarrow>
                (case tab role of
                   Some ks \<Rightarrow> abilitiesLoop roles st ks depth
                 | None \<Rightarrow> hashEnter st role)))"
| "abilitiesLoop roles st [] depth = st"
| "abilitiesLoop roles st (k # ks) depth =
     abilitiesLoop roles (computeAbilities roles st k (depth + 1)) ks (depth + 1)"
  by pat_completeness auto

termination \<comment> \<open>\<open>depth\<close> nears the bound 21 or, beyond it, the list of keys shrinks\<close>
  by (relation "measures [depth_measure, keys_measure]")
     (auto simp: depth_measure_def keys_measure_def)

text \<open>
  Modelled from the spec: \<open>stok\<close> is declared in goahead.h and defined outside the
  sources at hand. It tokenizes on a set of delimiter characters ("tokenize \<open>user.roles\<close>
  on whitespace and comma", "split on \<open>:\<close>"): it skips leading delimiters, returns the
  run of characters up to the next delimiter and leaves its position after it. The position
  (\<open>*last\<close>, or \<open>str\<close> on the first call) is a \<open>string option\<close>; \<open>None\<close> is the null pointer.
  The result is the token (null when none is left) and the new position.
\<close>

fun stok :: "string option \<Rightarrow> string \<Rightarrow> string option \<times> string option" where
  "stok None delim = (None, None)"
| "stok (Some str) delim =
     (let start = dropWhile (\<lambda>c. c \<in> set delim) str
      in if start = [] then (None, None)
         else (Some (takeWhile (\<lambda>c. c \<notin> set delim) start),
               Some (dropWhile (\<lambda>c. c \<in> set delim)
                       (dropWhile (\<lambda>c. c \<notin> set delim) start))))"

fun position_size :: "string option \<Rightarrow> nat" where
  "position_size None = 0"
| "position_size (Some s) = Suc (length s)"

lemma stok_position_decreases:
  "stok pos delim = (Some t, pos') \<Longrightarrow> position_size pos' < position_size pos"
proof (cases pos)
  case None
  assume "stok pos delim = (Some t, pos')"
  with None show ?thesis by simp
next
  case (Some str)
  assume a: "stok pos delim = (Some t, pos')"
  define start where "start = dropWhile (\<lambda>c. c \<in> set delim) str"
  from a Some have ne: "start \<noteq> []"
    by (auto simp: start_def Let_def split: if_splits)
  from a Some ne have p: "pos' = Some (dropWhile (\<lambda>c. c \<in> set delim)
                       (dropWhile (\<lambda>c. c \<notin> set delim) start))"
    by (auto simp: start_def Let_def split: if_splits)
  from ne have "hd start \<notin> set delim"
    unfolding start_def by (metis (mono_tags, lifting) hd_dropWhile)
  with ne have "length (dropWhile (\<lambda>c. c \<notin> set delim) start) < length start"
    by (cases start) (auto simp: le_imp_less_Suc length_dropWhile_le)
  moreover have "length (dropWhile (\<lambda>c. c \<in> set delim)
                       (dropWhile (\<lambda>c. c \<notin> set delim) start))
                 \<le> length (dropWhile (\<lambda>c. c \<notin> set delim) start)"
    by (rule length_dropWhile_le)
  moreover have "length start \<le> length str"
    unfolding start_def by (rule length_dropWhile_le)
  ultimately show ?thesis using p Some by simp
qed

text \<open>
  The user record. \<open>abilities\<close> is a hash handle in the source; the keys of the table it
  names are kept beside it.
\<close>

record WebsUser =
  u_name :: string
  u_password :: string
  u_roles :: string
  u_abilities :: int
  u_ability_keys :: "string list"

text \<open>
  The loop of \<open>computeUserAbilities\<close>:
  \<open>for (ability = stok(roles, " \t,", &tok); ability; ability = stok(NULL, " \t,", &tok))\<close>.
\<close>

function rolesLoop :: "roletab \<Rightarrow> closure \<Rightarrow> string option \<Rightarrow> closure" where
  "rolesLoop roles st pos =
     (case stok pos [CHR '' '', CHR 0x09, CHR '',''] of
        (None, pos') \<Rightarrow> st
      | (Some ability, pos') \<Rightarrow> rolesLoop roles (computeAbilities roles st ability 0) pos')"
  by pat_completeness auto
termination
  by (relation "measure (\<lambda>(roles, st, pos). position_size pos)")
     (auto dest: stok_position_decreases [OF sym])

text \<open>
  \<open>computeUserAbilities(user)\<close>. \<open>h\<close> is the handle \<open>hashCreate(-1)\<close> returns; the source
  returns at once when it is 0. The second component is what was logged through \<open>error()\<close>.
\<close>

definition computeUserAbilities :: "roletab \<Rightarrow> int \<Rightarrow> WebsUser \<Rightarrow> WebsUser \<times> string list" where
  "computeUserAbilities roles h user =
     (if h = 0 then (user\<lparr>u_abilities := h, u_ability_keys := []\<rparr>, [])
      else (let st = rolesLoop roles \<lparr>handle = h, keys = [], errors = []\<rparr> (Some (u_roles user))
            in (user\<lparr>u_abilities := h, u_ability_keys := keys st\<rparr>, errors st)))"

text \<open>
  \<open>extends st st'\<close>: \<open>st'\<close> is \<open>st\<close> with keys and messages added at the end, nothing removed.
\<close>

definition extends :: "closure \<Rightarrow> closure \<Rightarrow> bool" where
  "extends st st' =
     (handle st' = handle st \<and> prefix (keys st) (keys st') \<and> prefix (errors st) (errors st'))"

text \<open>Example tables: Scenario F of the specification, and a role with 21 abilities.\<close>

definition cyclic_roles :: roletab where
  "cyclic_roles = Some (map_of [(''a'', [''b'']), (''b'', [''a'', ''terminal''])])"

definition wide_roles :: roletab where
  "wide_roles = Some (map_of [(''r'',
     [''a01'', ''a02'', ''a03'', ''a04'', ''a05'', ''a06'', ''a07'', ''a08'', ''a09'', ''a10'',
      ''a11'', ''a12'', ''a13'', ''a14'', ''a15'', ''a16'', ''a17'', ''a18'', ''a19'', ''a20'',
      ''a21''])])"

definition example_user :: "string \<Rightarrow> WebsUser" where
  "example_user rs =
     \<lparr>u_name = ''u'', u_password = ''p'', u_roles = rs, u_abilities = - 1, u_ability_keys = []\<rparr>"

section \<open>Requests, routes and the module state (auth.c, goahead.h)\<close>

text \<open>
  The variadic arguments of \<open>fmt\<close>, \<open>sfmt\<close> and \<open>trace\<close>: a \<open>%s\<close> argument is a string
  pointer (possibly null), a \<open>%x\<close> argument an integer.
\<close>

datatype fmt_arg = S "string option" | X int

text \<open>
  What a function does to the outside is recorded in the request, in order: responses
  (\<open>websError\<close>, \<open>websRedirectByStatus\<close>, \<open>websRedirect\<close>), \<open>trace\<close> output, and the calls
  made through the function pointers of a route.
\<close>

datatype event =
    Sent_error int string
  | Sent_redirect_status int
  | Sent_redirect string
  | Traced int string "fmt_arg list"
  | Called_parseAuth
  | Called_askLogin
  | Called_verify

text \<open>
  \<open>struct Webs\<close>, the fields auth.c uses. A \<open>char*\<close> is a \<open>string option\<close> (\<open>None\<close> the
  null pointer). \<open>route\<close> is a pointer into the store of routes, \<open>user\<close> the user record it
  points to. Beside the fields of the struct the record carries what reaches the functions
  through the request: \<open>vars\<close>, the decoded form variables (\<open>websGetVar\<close>); \<open>session\<close>, the
  variables of the session \<open>websGetSession(wp, 0)\<close> finds for this request (\<open>None\<close>: it finds
  none); \<open>nonce_next\<close>, the static counter \<open>next\<close> of \<open>createDigestNonce\<close>; and \<open>events\<close>.
  The field \<open>method\<close> of the struct is \<open>wp_method\<close>.
\<close>

record Webs =
  username :: "string option"
  password :: "string option"
  encoded :: bool
  authType :: "string option"
  authDetails :: "string option"
  authResponse :: "string option"
  cookie :: "string option"
  user :: "WebsUser option"
  digest :: "string option"
  realm :: "string option"
  nonce :: "string option"
  cnonce :: "string option"
  nc :: "string option"
  qop :: "string option"
  opaque :: "string option"
  digestUri :: "string option"
  wp_method :: "string option"
  route :: "nat option"
  vars :: "string \<rightharpoonup> string"
  session :: "(string \<Rightarrow> string option) option"
  nonce_next :: "64 word"
  events :: "event list"

text \<open>
  \<open>struct WebsRoute\<close>, its authentication binding. A function pointer is a function on the
  request, \<open>None\<close> the null pointer; a function returns \<open>None\<close> where its behaviour is
  undefined (it dereferences a null pointer or reads outside a buffer).
\<close>

record WebsRoute =
  route_authType :: "string option"
  route_parseAuth :: "(Webs \<Rightarrow> (bool \<times> Webs) option) option"
  route_askLogin :: "(Webs \<Rightarrow> Webs) option"
  route_verify :: "(Webs \<Rightarrow> (bool \<times> Webs) option) option"

text \<open>
  The module state of auth.c (\<open>users\<close>, \<open>secret\<close>, \<open>autoLogin\<close>) and the constants and
  functions auth.c takes from goahead.h, bit.h and the C library, whose definitions are not
  among the sources: they are parameters. \<open>sclone_null\<close> is what \<open>sclone\<close> returns for a null
  pointer; \<open>session_create_ok\<close> says whether \<open>websGetSession(wp, 1)\<close> can create a session
  for a request that has none; \<open>time_now\<close> is \<open>time(0)\<close>. \<open>WebsTime\<close> and the result type of
  \<open>hextoi\<close> are declared in goahead.h; their values are taken as integers.
\<close>

record auth_env =
  users :: "string \<rightharpoonup> WebsUser"
  secret :: "string option"
  autoLogin :: int
  BIT_REALM :: string
  BIT_LIMIT_PASSWORD :: nat
  BIT_DIGEST :: bool
  WEBS_SESSION_USERNAME :: string
  websMD5 :: "string \<Rightarrow> string"
  websDecode64 :: "string \<Rightarrow> string option"
  websEncode64 :: "string \<Rightarrow> string"
  hextoi :: "string option \<Rightarrow> int"
  fmt :: "nat \<Rightarrow> string \<Rightarrow> fmt_arg list \<Rightarrow> string"
  sfmt :: "string \<Rightarrow> fmt_arg list \<Rightarrow> string"
  time_now :: int
  websGetServerUrl :: string
  sclone_null :: "string option"
  session_create_ok :: bool

text \<open>
  Modelled from the spec: \<open>smatch\<close> (goahead.h) is string equality; the specification
  writes its uses as \<open>=\<close> and \<open>\<noteq>\<close> ("\<open>issuedRealm \<noteq> configuredRealm\<close>", "\<open>qop \<noteq> "auth"\<close>",
  "compare \<open>ctx.password\<close> against \<open>ctx.digest\<close>"). A null pointer matches a null pointer
  only.
\<close>

definition smatch :: "string option \<Rightarrow> string option \<Rightarrow> bool" where
  "smatch s1 s2 = (s1 = s2)"

text \<open>\<open>sclone\<close> copies a string; its result for the null pointer is the parameter.\<close>

definition sclone :: "auth_env \<Rightarrow> string option \<Rightarrow> string option" where
  "sclone cfg s = (case s of None \<Rightarrow> sclone_null cfg | Some x \<Rightarrow> Some x)"

definition trace :: "Webs \<Rightarrow> int \<Rightarrow> string \<Rightarrow> fmt_arg list \<Rightarrow> Webs" where
  "trace wp level f args = wp\<lparr>events := events wp @ [Traced level f args]\<rparr>"

definition websError :: "Webs \<Rightarrow> int \<Rightarrow> string \<Rightarrow> Webs" where
  "websError wp code msg = wp\<lparr>events := events wp @ [Sent_error code msg]\<rparr>"

definition websRedirectByStatus :: "Webs \<Rightarrow> int \<Rightarrow> Webs" where
  "websRedirectByStatus wp code = wp\<lparr>events := events wp @ [Sent_redirect_status code]\<rparr>"

definition websRedirect :: "Webs \<Rightarrow> string \<Rightarrow> Webs" where
  "websRedirect wp url = wp\<lparr>events := events wp @ [Sent_redirect url]\<rparr>"

definition HTTP_CODE_OK :: int where
  "HTTP_CODE_OK = 200"

definition HTTP_CODE_BAD_REQUEST :: int where
  "HTTP_CODE_BAD_REQUEST = 400"

definition HTTP_CODE_UNAUTHORIZED :: int where
  "HTTP_CODE_UNAUTHORIZED = 401"

text \<open>
  Modelled from the spec: the session store is external ("an opaque capability taking
  \<open>(sessionId, key, value)\<close> triples"). \<open>websGetSession(wp, create)\<close> yields the session of
  the request, creating an empty one on demand; \<open>websGetSessionVar\<close> reads a variable of it
  (the default when there is no session or no such variable); \<open>websSetSessionVar\<close> writes
  one, in a new session when the request has none; \<open>websGetVar\<close> reads a form variable.
\<close>

definition websGetSession :: "auth_env \<Rightarrow> Webs \<Rightarrow> bool \<Rightarrow> bool \<times> Webs" where
  "websGetSession cfg wp create =
     (case session wp of
        Some vs \<Rightarrow> (True, wp)
      | None \<Rightarrow> (if create \<and> session_create_ok cfg
                 then (True, wp\<lparr>session := Some (\<lambda>k. None)\<rparr>) else (False, wp)))"

definition websGetSessionVar :: "Webs \<Rightarrow> string \<Rightarrow> string option \<Rightarrow> string option" where
  "websGetSessionVar wp key dflt =
     (case session wp of
        None \<Rightarrow> dflt
      | Some vs \<Rightarrow> (case vs key of None \<Rightarrow> dflt | Some v \<Rightarrow> Some v))"

definition websSetSessionVar :: "Webs \<Rightarrow> string \<Rightarrow> string option \<Rightarrow> Webs" where
  "websSetSessionVar wp key v =
     wp\<lparr>session := Some ((case session wp of None \<Rightarrow> (\<lambda>k. None) | Some vs \<Rightarrow> vs)(key := v))\<rparr>"

definition websGetVar :: "Webs \<Rightarrow> string \<Rightarrow> string \<Rightarrow> string" where
  "websGetVar wp var dflt = (case vars wp var of None \<Rightarrow> dflt | Some v \<Rightarrow> v)"

text \<open>\<open>websLookupUser(username)\<close>: \<open>hashLookup\<close> in \<open>users\<close>; a null name finds nothing.\<close>

definition websLookupUser :: "auth_env \<Rightarrow> string option \<Rightarrow> WebsUser option" where
  "websLookupUser cfg name = (case name of None \<Rightarrow> None | Some n \<Rightarrow> users cfg n)"

section \<open>Credential verifier (auth.c: websVerifyPassword)\<close>

definition websVerifyPassword :: "auth_env \<Rightarrow> Webs \<Rightarrow> bool \<times> Webs" where
  \<open>websVerifyPassword cfg wp0 =
     (let wp1 = (if \<not> encoded wp0
                 then wp0\<lparr>password := Some (websMD5 cfg
                            (fmt cfg (BIT_LIMIT_PASSWORD cfg * 3 + 3) ''%s:%s:%s''
                               [S (username wp0), S (Some (BIT_REALM cfg)), S (password wp0)])),
                          encoded := True\<rparr>
                 else wp0);
          wp2 = (if user wp1 = None then wp1\<lparr>user := websLookupUser cfg (username wp1)\<rparr>
                 else wp1)
      in (case user wp2 of
            None \<Rightarrow> (False, trace wp2 5 ''verifyUser: Unknown user "%s"'' [S (username wp2)])
          | Some u \<Rightarrow>
              (let success = (if digest wp2 \<noteq> None then smatch (password wp2) (digest wp2)
                              else smatch (password wp2) (Some (u_password u)))
               in if success
                  then (True, trace wp2 5 ''User "%s" authenticated'' [S (username wp2)])
                  else (False, trace wp2 5 ''Password for user "%s" failed to authenticate''
                                  [S (username wp2)]))))\<close>

section \<open>Form login (auth.c: websLoginUser, loginServiceProc)\<close>

text \<open>
  \<open>routes\<close> is the store the pointer \<open>wp->route\<close> points into. A call through a route's
  function pointer is recorded before the function runs.
\<close>

definition websLoginUser ::
  "auth_env \<Rightarrow> (nat \<Rightarrow> WebsRoute) \<Rightarrow> Webs \<Rightarrow> string \<Rightarrow> string \<Rightarrow> (bool \<times> Webs) option" where
  "websLoginUser cfg routes wp uname pass =
     (case route wp of
        None \<Rightarrow> Some (False, wp)
      | Some p \<Rightarrow>
          (case route_verify (routes p) of
             None \<Rightarrow> Some (False, wp)
           | Some verify \<Rightarrow>
               (let wp1 = wp\<lparr>username := sclone cfg (Some uname),
                             password := sclone cfg (Some pass)\<rparr>
                in (case verify (wp1\<lparr>events := events wp1 @ [Called_verify]\<rparr>) of
                      None \<Rightarrow> None
                    | Some (ok, wp2) \<Rightarrow>
                        (if \<not> ok
                         then Some (False, trace wp2 2 ''Password does not match\<newline>'' [])
                         else Some (True, websSetSessionVar wp2 (WEBS_SESSION_USERNAME cfg)
                                            (username wp2)))))))"

definition loginServiceProc :: "auth_env \<Rightarrow> (nat \<Rightarrow> WebsRoute) \<Rightarrow> Webs \<Rightarrow> Webs option" where
  "loginServiceProc cfg routes wp =
     (case websLoginUser cfg routes wp (websGetVar wp ''username'' '''')
             (websGetVar wp ''password'' '''') of
        None \<Rightarrow> None
      | Some (True, wp1) \<Rightarrow>
          (case websGetSessionVar wp1 ''referrer'' None of
             Some referrer \<Rightarrow> Some (websRedirect wp1 referrer)
           | None \<Rightarrow> Some (websRedirectByStatus wp1 HTTP_CODE_OK))
      | Some (False, wp1) \<Rightarrow>
          (case route wp of
             None \<Rightarrow> None
           | Some p \<Rightarrow>
               (let wp2 = (case route_askLogin (routes p) of
                             None \<Rightarrow> wp1
                           | Some askLogin \<Rightarrow>
                               askLogin (wp1\<lparr>events := events wp1 @ [Called_askLogin]\<rparr>))
                in Some (websRedirectByStatus wp2 HTTP_CODE_UNAUTHORIZED))))"

section \<open>Basic authentication (auth.c: basicLogin, parseBasicDetails)\<close>

definition basicLogin :: "auth_env \<Rightarrow> Webs \<Rightarrow> Webs" where
  \<open>basicLogin cfg wp =
     wp\<lparr>authResponse := Some (sfmt cfg ''Basic realm="%s"'' [S (Some (BIT_REALM cfg))])\<rparr>\<close>

text \<open>
  \<open>parseBasicDetails\<close> splits the decoded header at its first colon. It hands the result
  of \<open>websDecode64\<close> to \<open>strchr\<close> unchecked: a null result is outside the defined behaviour.
\<close>

definition parseBasicDetails :: "auth_env \<Rightarrow> Webs \<Rightarrow> (bool \<times> Webs) option" where
  "parseBasicDetails cfg wp =
     (case authDetails wp of
        None \<Rightarrow> None
      | Some details \<Rightarrow>
          (case websDecode64 cfg details of
             None \<Rightarrow> None
           | Some userAuth \<Rightarrow>
               (if CHR '':'' \<in> set userAuth
                then Some (True, wp\<lparr>username := sclone cfg (Some (takeWhile (\<lambda>c. c \<noteq> CHR '':'') userAuth)),
                                     password := sclone cfg (Some (tl (dropWhile (\<lambda>c. c \<noteq> CHR '':'') userAuth))),
                                     encoded := False\<rparr>)
                else Some (True, wp\<lparr>username := sclone cfg (Some ''''),
                                     password := sclone cfg (Some '''')\<rparr>))))"

section \<open>The authorization gate (auth.c: websAuthenticate)\<close>

text \<open>\<open>if (route->askLogin) { (route->askLogin)(wp); }\<close>\<close>

definition askLogin_if_set :: "WebsRoute \<Rightarrow> Webs \<Rightarrow> Webs" where
  "askLogin_if_set r wp =
     (case route_askLogin r of
        None \<Rightarrow> wp
      | Some askLogin \<Rightarrow> askLogin (wp\<lparr>events := events wp @ [Called_askLogin]\<rparr>))"

text \<open>
  The part of \<open>websAuthenticate\<close> that reads the session: the flag \<open>cached\<close> and the request
  with the cached user name copied in.
\<close>

definition cached_identity :: "auth_env \<Rightarrow> Webs \<Rightarrow> bool \<times> Webs" where
  "cached_identity cfg wp =
     (if cookie wp \<noteq> None \<and> fst (websGetSession cfg wp False)
      then (case websGetSessionVar (snd (websGetSession cfg wp False))
                   (WEBS_SESSION_USERNAME cfg) None of
              Some uname \<Rightarrow>
                (True, (snd (websGetSession cfg wp False))\<lparr>username := sclone cfg (Some uname)\<rparr>)
            | None \<Rightarrow> (False, snd (websGetSession cfg wp False)))
      else (False, wp))"

text \<open>
  The part of \<open>websAuthenticate\<close> inside \<open>if (!cached)\<close>. The calls \<open>(route->parseAuth)(wp)\<close> and
  \<open>(route->verify)(wp)\<close> are not guarded by a null test in the source.
\<close>

definition authenticate_uncached :: "auth_env \<Rightarrow> WebsRoute \<Rightarrow> Webs \<Rightarrow> (bool \<times> Webs) option" where
  "authenticate_uncached cfg r wp =
     (if authType wp \<noteq> None \<and> \<not> smatch (authType wp) (route_authType r)
      then Some (False, websError wp HTTP_CODE_BAD_REQUEST
                          ''Access denied. Wrong authentication protocol type.'')
      else
        (case (if authDetails wp \<noteq> None
               then (case route_parseAuth r of
                       None \<Rightarrow> None
                     | Some parseAuth \<Rightarrow> parseAuth (wp\<lparr>events := events wp @ [Called_parseAuth]\<rparr>))
               else Some (True, wp)) of
           None \<Rightarrow> None
         | Some (False, wp1) \<Rightarrow> Some (False, wp1)
         | Some (True, wp1) \<Rightarrow>
             (if username wp1 = None \<or> username wp1 = Some ''''
              then Some (False, websRedirectByStatus (askLogin_if_set r wp1) HTTP_CODE_UNAUTHORIZED)
              else
                (case route_verify r of
                   None \<Rightarrow> None
                 | Some verify \<Rightarrow>
                     (case verify (wp1\<lparr>events := events wp1 @ [Called_verify]\<rparr>) of
                        None \<Rightarrow> None
                      | Some (False, wp2) \<Rightarrow>
                          Some (False, websRedirectByStatus (askLogin_if_set r wp2)
                                         HTTP_CODE_UNAUTHORIZED)
                      | Some (True, wp2) \<Rightarrow>
                          (if fst (websGetSession cfg wp2 True)
                           then Some (True, websSetSessionVar (snd (websGetSession cfg wp2 True))
                                              (WEBS_SESSION_USERNAME cfg) (username wp2))
                           else Some (True, snd (websGetSession cfg wp2 True))))))))"

definition websAuthenticate :: "auth_env \<Rightarrow> (nat \<Rightarrow> WebsRoute) \<Rightarrow> Webs \<Rightarrow> (bool \<times> Webs) option" where
  "websAuthenticate cfg routes wp =
     (case route wp of
        None \<Rightarrow> Some (True, wp)
      | Some p \<Rightarrow>
          (if route_authType (routes p) = None \<or> autoLogin cfg \<noteq> 0 then Some (True, wp)
           else (case cached_identity cfg wp of
                   (True, wp1) \<Rightarrow> Some (True, wp1)
                 | (False, wp1) \<Rightarrow> authenticate_uncached cfg (routes p) wp1)))"

section \<open>Digest authentication (auth.c: parseDigestDetails and its helpers)\<close>

subsection \<open>The header buffer\<close>

text \<open>
  \<open>parseDigestDetails\<close> scans a copy of the header in place: it moves pointers forward,
  writes NUL bytes and, for values with a backslash, copies characters down. The copy is a
  list of characters ending in the terminating NUL and pointers are indices into it. A read
  or write at an index outside the list is outside the buffer: the result is \<open>None\<close>.
\<close>

definition NUL :: char where
  "NUL = CHR 0x00"

definition rd :: "char list \<Rightarrow> nat \<Rightarrow> char option" where
  "rd buf i = (if i < length buf then Some (buf ! i) else None)"

definition wr :: "char list \<Rightarrow> nat \<Rightarrow> char \<Rightarrow> char list option" where
  "wr buf i c = (if i < length buf then Some (buf[i := c]) else None)"

text \<open>The C string that starts at index \<open>i\<close>, and the buffer \<open>sclone\<close> makes of a string.\<close>

definition cstr_at :: "char list \<Rightarrow> nat \<Rightarrow> string" where
  "cstr_at buf i = takeWhile (\<lambda>c. c \<noteq> NUL) (drop i buf)"

definition buffer_of :: "string \<Rightarrow> char list" where
  "buffer_of s = takeWhile (\<lambda>c. c \<noteq> NUL) s @ [NUL]"

text \<open>
  \<open>isspace\<close> and \<open>tolower\<close> of the C library, in the "C" locale; \<open>scaselesscmp(a, b) == 0\<close>
  (goahead.h) compares without regard to case.
\<close>

definition isspace :: "char \<Rightarrow> bool" where
  "isspace c = (c = CHR '' '' \<or> c = CHR 0x09 \<or> c = CHR 0x0A \<or> c = CHR 0x0B \<or> c = CHR 0x0C
                  \<or> c = CHR 0x0D)"

definition tolower :: "char \<Rightarrow> char" where
  "tolower c =
     (if 65 \<le> (of_char c :: nat) \<and> (of_char c :: nat) \<le> 90 then char_of (of_char c + 32 :: nat)
      else c)"

definition scaselesscmp_eq :: "string \<Rightarrow> string \<Rightarrow> bool" where
  "scaselesscmp_eq a b = (map tolower a = map tolower b)"

text \<open>
  The pointer loops \<open>while (P(*p)) p++;\<close>: the index of the first character from \<open>i\<close> on
  that fails \<open>P\<close>.
\<close>

function scan_while :: "(char \<Rightarrow> bool) \<Rightarrow> char list \<Rightarrow> nat \<Rightarrow> nat option" where
  "scan_while P buf i =
     (if i < length buf then (if P (buf ! i) then scan_while P buf (Suc i) else Some i)
      else None)"
  by pat_completeness auto
termination
  by (relation "measure (\<lambda>(P, buf, i). length buf - i)") auto

text \<open>
  The back-quoting loop
  \<open>for (dp = sp = value; *sp; sp++) { if (*sp == '\\') sp++; *dp++ = *sp++; }  *dp = '\0';\<close>
  Both the body and the loop header advance \<open>sp\<close>.
\<close>

function unquote :: "char list \<Rightarrow> nat \<Rightarrow> nat \<Rightarrow> char list option" where
  "unquote buf dp sp =
     (case rd buf sp of
        None \<Rightarrow> None
      | Some c \<Rightarrow>
          (if c = NUL then wr buf dp NUL
           else (let sp1 = (if c = CHR 0x5C then Suc sp else sp)
                 in (case rd buf sp1 of
                       None \<Rightarrow> None
                     | Some d \<Rightarrow>
                         (case wr buf dp d of
                            None \<Rightarrow> None
                          | Some buf' \<Rightarrow> unquote buf' (Suc dp) (Suc (Suc sp1)))))))"
  by pat_completeness auto
termination
  by (relation "measure (\<lambda>(buf, dp, sp). Suc (length buf) - sp)")
     (auto simp: rd_def wr_def split: if_splits)

text \<open>The two equations recur on every argument, so they are unfolded on demand only.\<close>

declare scan_while.simps [simp del]

declare unquote.simps [simp del]

subsection \<open>One \<open>key=value\<close> pair\<close>

text \<open>The \<open>switch\<close> on the first letter of the key. Case \<open>'s'\<close> falls through into case \<open>'u'\<close>.\<close>

definition digest_field :: "auth_env \<Rightarrow> Webs \<Rightarrow> string \<Rightarrow> string \<Rightarrow> Webs" where
  "digest_field cfg wp key val =
     (let c = (case key of [] \<Rightarrow> NUL | k # ks \<Rightarrow> tolower k);
          uri_user = (if scaselesscmp_eq key ''uri'' then wp\<lparr>digestUri := sclone cfg (Some val)\<rparr>
                      else if scaselesscmp_eq key ''username'' \<or> scaselesscmp_eq key ''user''
                      then wp\<lparr>username := sclone cfg (Some val)\<rparr>
                      else wp)
      in if c = CHR ''a'' then wp
         else if c = CHR ''c''
         then (if scaselesscmp_eq key ''cnonce'' then wp\<lparr>cnonce := sclone cfg (Some val)\<rparr> else wp)
         else if c = CHR ''d'' then wp
         else if c = CHR ''n''
         then (if scaselesscmp_eq key ''nc'' then wp\<lparr>nc := sclone cfg (Some val)\<rparr>
               else if scaselesscmp_eq key ''nonce'' then wp\<lparr>nonce := sclone cfg (Some val)\<rparr>
               else wp)
         else if c = CHR ''o''
         then (if scaselesscmp_eq key ''opaque'' then wp\<lparr>opaque := sclone cfg (Some val)\<rparr> else wp)
         else if c = CHR ''q''
         then (if scaselesscmp_eq key ''qop'' then wp\<lparr>qop := sclone cfg (Some val)\<rparr> else wp)
         else if c = CHR ''r''
         then (if scaselesscmp_eq key ''realm'' then wp\<lparr>realm := sclone cfg (Some val)\<rparr>
               else if scaselesscmp_eq key ''response''
               then wp\<lparr>password := sclone cfg (Some val), encoded := True\<rparr>
               else wp)
         else if c = CHR ''s''
         then (if scaselesscmp_eq key ''stale'' then wp else uri_user)
         else if c = CHR ''u'' then uri_user
         else wp)"

text \<open>
  One round of the \<open>while (*key)\<close> loop: the new buffer, the new \<open>key\<close> pointer and the
  request. \<open>*tok++ = '\0'\<close> writes at \<open>tok\<close> and steps over it, also when \<open>tok\<close> stands on the
  terminating NUL of the buffer.
\<close>

definition scan_pair :: "auth_env \<Rightarrow> char list \<Rightarrow> nat \<Rightarrow> Webs \<Rightarrow> (char list \<times> nat \<times> Webs) option" where
  "scan_pair cfg buf key0 wp =
     (case scan_while (\<lambda>c. c \<noteq> NUL \<and> isspace c) buf key0 of
        None \<Rightarrow> None
      | Some key \<Rightarrow>
     (case scan_while (\<lambda>c. c \<noteq> NUL \<and> \<not> isspace c \<and> c \<noteq> CHR '','' \<and> c \<noteq> CHR ''='') buf key of
        None \<Rightarrow> None
      | Some tok1 \<Rightarrow>
     (case wr buf tok1 NUL of
        None \<Rightarrow> None
      | Some buf1 \<Rightarrow>
     (case scan_while isspace buf1 (Suc tok1) of
        None \<Rightarrow> None
      | Some tok2 \<Rightarrow>
     (case (if rd buf1 tok2 = Some (CHR 0x22)
            then (case scan_while (\<lambda>c. c \<noteq> CHR 0x22 \<and> c \<noteq> NUL) buf1 (Suc tok2) of
                    None \<Rightarrow> None
                  | Some tok3 \<Rightarrow> Some (Suc tok2, tok3, False))
            else (case scan_while (\<lambda>c. c \<noteq> CHR '','' \<and> c \<noteq> NUL) buf1 tok2 of
                    None \<Rightarrow> None
                  | Some tok3 \<Rightarrow> Some (tok2, tok3, True))) of
        None \<Rightarrow> None
      | Some (val, tok3, seenComma) \<Rightarrow>
     (case wr buf1 tok3 NUL of
        None \<Rightarrow> None
      | Some buf2 \<Rightarrow>
     (case (if CHR 0x5C \<in> set (cstr_at buf2 val) then unquote buf2 val val else Some buf2) of
        None \<Rightarrow> None
      | Some buf3 \<Rightarrow>
     (let wp1 = digest_field cfg wp (cstr_at buf3 key) (cstr_at buf3 val)
      in if seenComma then Some (buf3, Suc tok3, wp1)
         else (case scan_while (\<lambda>c. c \<noteq> NUL \<and> c \<noteq> CHR '','') buf3 (Suc tok3) of
                 None \<Rightarrow> None
               | Some key1 \<Rightarrow>
                   Some (buf3, (if rd buf3 key1 \<noteq> Some NUL then Suc key1 else key1), wp1))))))))))"

lemma scan_while_bounds:
  "scan_while P buf i = Some j \<Longrightarrow> i \<le> j \<and> j < length buf"
proof (induction P buf i rule: scan_while.induct)
  case (1 P buf i)
  show ?case
  proof (cases "i < length buf \<and> P (buf ! i)")
    case True
    with "1.prems" have "scan_while P buf (Suc i) = Some j"
      by (simp add: scan_while.simps [of P buf i])
    with True "1.IH" have "Suc i \<le> j \<and> j < length buf" by simp
    then show ?thesis by simp
  next
    case False
    with "1.prems" show ?thesis
      by (simp add: scan_while.simps [of P buf i] split: if_splits)
  qed
qed

lemma wr_length: "wr buf i c = Some buf' \<Longrightarrow> length buf' = length buf"
  by (auto simp: wr_def split: if_splits)

lemma unquote_length:
  "unquote buf dp sp = Some buf' \<Longrightarrow> length buf' = length buf"
proof (induction buf dp sp arbitrary: buf' rule: unquote.induct)
  case (1 buf dp sp)
  note u = unquote.simps [of buf dp sp]
  show ?case
  proof (cases "rd buf sp")
    case None
    with "1.prems" show ?thesis by (simp add: u)
  next
    case (Some c)
    show ?thesis
    proof (cases "c = NUL")
      case True
      with Some "1.prems" have "wr buf dp NUL = Some buf'" by (simp add: u)
      then show ?thesis by (rule wr_length)
    next
      case False
      define sp1 where "sp1 = (if c = CHR 0x5C then Suc sp else sp)"
      from False Some "1.prems" obtain d b where
        d: "rd buf sp1 = Some d" and b: "wr buf dp d = Some b"
        and r: "unquote b (Suc dp) (Suc (Suc sp1)) = Some buf'"
        unfolding u sp1_def
        by (auto simp: Let_def split: option.splits if_splits)
      from "1.IH" [OF Some False sp1_def d b r] have "length buf' = length b" .
      with wr_length [OF b] show ?thesis by simp
    qed
  qed
qed

lemma scan_pair_advances:
  assumes "scan_pair cfg buf key0 wp = Some (buf', key', wp')"
  shows "key0 < key' \<and> length buf' = length buf"
  using assms unfolding scan_pair_def
  by (auto simp: Let_def split: option.splits if_splits prod.splits
        dest!: scan_while_bounds wr_length unquote_length)

subsection \<open>The scanning loop\<close>

text \<open>
  \<open>while (*key) { ... }\<close>. Reading \<open>*key\<close> after the pointer has left the buffer is outside
  the defined behaviour.
\<close>

function scan_pairs :: "auth_env \<Rightarrow> char list \<Rightarrow> nat \<Rightarrow> Webs \<Rightarrow> Webs option" where
  "scan_pairs cfg buf key wp =
     (case rd buf key of
        None \<Rightarrow> None
      | Some c \<Rightarrow>
          (if c = NUL then Some wp
           else (case scan_pair cfg buf key wp of
                   None \<Rightarrow> None
                 | Some (buf', key', wp') \<Rightarrow> scan_pairs cfg buf' key' wp')))"
  by pat_completeness auto
termination
proof (relation "measure (\<lambda>(cfg, buf, key, wp). Suc (length buf) - key)")
  show "wf (measure (\<lambda>(cfg, buf, key, wp). Suc (length buf) - key))" by simp
next
  fix cfg :: auth_env and buf :: "char list" and key :: nat and wp :: Webs
    and c x2 buf' y key' wp'
  assume "rd buf key = Some c" and "scan_pair cfg buf key wp = Some x2"
    and "(buf', y) = x2" and "(key', wp') = y"
  then have "scan_pair cfg buf key wp = Some (buf', key', wp')" and "key < length buf"
    by (auto simp: rd_def split: if_splits)
  with scan_pair_advances [of cfg buf key wp buf' key' wp']
  have "Suc (length buf') - key' < Suc (length buf) - key"
    by arith
  then show "((cfg, buf', key', wp'), (cfg, buf, key, wp))
          \<in> measure (\<lambda>(cfg, buf, key, wp). Suc (length buf) - key)"
    by simp
qed


declare scan_pairs.simps [simp del]

subsection \<open>Nonce, digest and the checks after the scan\<close>

text \<open>
  \<open>parseDigestNonce(nonce, &secret, &realm, &when)\<close>: the return code and the three output
  parameters, which the caller has set to 0 and which stay so when decoding fails.
\<close>

definition parseDigestNonce ::
  "auth_env \<Rightarrow> string \<Rightarrow> int \<times> string option \<times> string option \<times> int" where
  "parseDigestNonce cfg nonce_str =
     (case websDecode64 cfg nonce_str of
        None \<Rightarrow> (- 1, None, None, 0)
      | Some decoded \<Rightarrow>
          (let r1 = stok (Some decoded) '':'';
               r2 = stok (snd r1) '':'';
               r3 = stok (snd r2) '':''
           in (0, fst r1, fst r2, hextoi cfg (fst r3))))"

text \<open>
  \<open>calcDigest(wp, username, password)\<close>. \<open>scmp(a, b) == 0\<close> is string equality, written with
  \<open>smatch\<close>.
\<close>

definition calcDigest :: "auth_env \<Rightarrow> Webs \<Rightarrow> string option \<Rightarrow> string option \<Rightarrow> string" where
  "calcDigest cfg wp uname pass =
     (let ha1 = (if uname = None then sclone cfg pass
                 else Some (websMD5 cfg (fmt cfg 256 ''%s:%s:%s'' [S uname, S (realm wp), S pass])));
          ha2 = websMD5 cfg (fmt cfg 256 ''%s:%s'' [S (wp_method wp), S (digestUri wp)]);
          digestBuf =
            (if smatch (qop wp) (Some ''auth'')
             then fmt cfg 256 ''%s:%s:%s:%s:%s:%s''
                    [S ha1, S (nonce wp), S (nc wp), S (cnonce wp), S (qop wp), S (Some ha2)]
             else if smatch (qop wp) (Some ''auth-int'')
             then fmt cfg 256 ''%s:%s:%s:%s:%s:%s''
                    [S ha1, S (nonce wp), S (nc wp), S (cnonce wp), S (qop wp), S (Some ha2)]
             else fmt cfg 256 ''%s:%s:%s'' [S ha1, S (nonce wp), S (Some ha2)])
      in websMD5 cfg digestBuf)"

text \<open>
  The part of \<open>parseDigestDetails\<close> after the scanning loop. The nonce is parsed into the
  locals \<open>secret\<close>, \<open>realm\<close> and \<open>when\<close> (here \<open>l_secret\<close>, \<open>l_realm\<close>, \<open>l_when\<close>). The local
  \<open>secret\<close> hides the module's \<open>secret\<close>: the first test, \<open>smatch(secret, secret)\<close>, has the
  local on both sides. Where the nonce is parsed, \<open>wp->nonce\<close> has been tested to be
  non-null.
\<close>

definition digest_checks :: "auth_env \<Rightarrow> Webs \<Rightarrow> bool \<times> Webs" where
  "digest_checks cfg wp0 =
     (if username wp0 = None \<or> realm wp0 = None \<or> nonce wp0 = None \<or> route wp0 = None
           \<or> password wp0 = None
      then (False, wp0)
      else if qop wp0 \<noteq> None \<and> (cnonce wp0 = None \<or> nc wp0 = None)
      then (False, wp0)
      else
        (let wp = (if qop wp0 = None then wp0\<lparr>qop := sclone cfg (Some '''')\<rparr> else wp0)
         in (case parseDigestNonce cfg (the (nonce wp)) of
               (rc, l_secret, l_realm, l_when) \<Rightarrow>
                 (if \<not> smatch l_secret l_secret
                  then (False, trace wp 2 ''Access denied: Nonce mismatch\<newline>'' [])
                  else if \<not> smatch l_realm (Some (BIT_REALM cfg))
                  then (False, trace wp 2 ''Access denied: Realm mismatch\<newline>'' [])
                  else if \<not> smatch (qop wp) (Some ''auth'')
                  then (False, trace wp 2 ''Access denied: Bad qop\<newline>'' [])
                  else if l_when + 5 * 60 < time_now cfg
                  then (False, trace wp 2 ''Access denied: Nonce is stale\<newline>'' [])
                  else
                    (let wp1 = (if user wp = None
                                then wp\<lparr>user := websLookupUser cfg (username wp)\<rparr> else wp)
                     in (case user wp1 of
                           None \<Rightarrow> (False, trace wp1 2 ''Access denied: user is unknown\<newline>'' [])
                         | Some u \<Rightarrow>
                             (True, wp1\<lparr>digest :=
                                Some (calcDigest cfg wp1 None (Some (u_password u)))\<rparr>)))))))"

text \<open>
  \<open>parseDigestDetails(wp)\<close>: scan \<open>sclone(wp->authDetails)\<close>, then check. \<open>None\<close>: the scan
  dereferences a null pointer or leaves the buffer.
\<close>

definition parseDigestDetails :: "auth_env \<Rightarrow> Webs \<Rightarrow> (bool \<times> Webs) option" where
  "parseDigestDetails cfg wp =
     (case sclone cfg (authDetails wp) of
        None \<Rightarrow> None
      | Some details \<Rightarrow>
          (case scan_pairs cfg (buffer_of details) 0 wp of
             None \<Rightarrow> None
           | Some wp1 \<Rightarrow> Some (digest_checks cfg wp1)))"

text \<open>\<open>createDigestNonce(wp)\<close> and \<open>digestLogin(wp)\<close>.\<close>

definition createDigestNonce :: "auth_env \<Rightarrow> Webs \<Rightarrow> string \<times> Webs" where
  "createDigestNonce cfg wp =
     (websEncode64 cfg (fmt cfg 256 ''%s:%s:%x:%x''
         [S (secret cfg), S (Some (BIT_REALM cfg)), X (time_now cfg), X (sint (nonce_next wp))]),
      wp\<lparr>nonce_next := nonce_next wp + 1\<rparr>)"

definition digestLogin :: "auth_env \<Rightarrow> Webs \<Rightarrow> Webs" where
  \<open>digestLogin cfg wp =
     (case createDigestNonce cfg wp of
        (nonce_str, wp1) \<Rightarrow>
          wp1\<lparr>authResponse := Some (sfmt cfg
            ''Digest realm="%s", domain="%s", qop="%s", nonce="%s", opaque="%s", algorithm="%s", stale="%s"''
            [S (Some (BIT_REALM cfg)), S (Some (websGetServerUrl cfg)), S (Some ''auth''),
             S (Some nonce_str), S (Some ''5ccc069c403ebaf9f0171e9517f40e41''), S (Some ''MD5''),
             S (Some ''FALSE'')])\<rparr>)\<close>

section \<open>Binding a route to a protocol (auth.c: websSetRouteAuth)\<close>

text \<open>
  \<open>websSetRouteAuth(route, auth)\<close>; the \<open>digest\<close> branch exists when \<open>BIT_DIGEST\<close> is set. In
  the last branch \<open>auth = 0\<close> and the route stores \<open>sclone(auth)\<close>. The function returns 0 in
  every case; the model returns the route.
\<close>

definition websSetRouteAuth :: "auth_env \<Rightarrow> WebsRoute \<Rightarrow> string \<Rightarrow> WebsRoute" where
  "websSetRouteAuth cfg r auth =
     (if smatch (Some auth) (Some ''basic'')
      then r\<lparr>route_authType := sclone cfg (Some auth),
             route_askLogin := Some (basicLogin cfg),
             route_parseAuth := Some (parseBasicDetails cfg)\<rparr>
      else if BIT_DIGEST cfg \<and> smatch (Some auth) (Some ''digest'')
      then r\<lparr>route_authType := sclone cfg (Some auth),
             route_askLogin := Some (digestLogin cfg),
             route_parseAuth := Some (parseDigestDetails cfg)\<rparr>
      else r\<lparr>route_authType := sclone cfg None,
             route_askLogin := None,
             route_parseAuth := None\<rparr>)"

section \<open>Saving the store (auth.c: websWriteAuthFile)\<close>

text \<open>
  The file system is a map from path names to file contents. What the C library answers
  during one call is a parameter: the name \<open>tempnam(NULL, "tmp")\<close> returns (\<open>None\<close>: it returns
  a null pointer), whether \<open>fopen\<close>, \<open>unlink\<close> and \<open>rename\<close> succeed, and \<open>basename(path)\<close>. The
  results of \<open>fprintf\<close>, \<open>fputc\<close>, \<open>fclose\<close> and \<open>unlink\<close> are not looked at by the source; the
  text is taken to reach the file whole.
\<close>

type_synonym fsys = "string \<rightharpoonup> string"

record save_os =
  tempnam_result :: "string option"
  fopen_ok :: bool
  unlink_ok :: bool
  rename_ok :: bool
  basename_result :: string

text \<open>
  The calls into the C library that touch the file system, with their arguments, in the
  order the function makes them. \<open>Call_write\<close> stands for the run of \<open>fprintf\<close> and \<open>fputc\<close>
  calls and carries the whole text.
\<close>

datatype os_call =
    Call_tempnam "string option" string
  | Call_fopen string string
  | Call_write string
  | Call_fclose
  | Call_unlink string
  | Call_rename string string

text \<open>
  What one call of \<open>websWriteAuthFile\<close> leaves: the return code, the file system, the
  messages given to \<open>error()\<close> and the calls made.
\<close>

record save_outcome =
  save_rc :: int
  save_fs :: fsys
  save_errors :: "string list"
  save_calls :: "os_call list"

text \<open>
  The tables are given in the order \<open>hashFirst\<close>/\<open>hashNext\<close> visit them; \<open>None\<close> is a negative
  handle.
\<close>

definition role_line :: "string \<times> string list \<Rightarrow> string" where
  "role_line r =
     ''role name='' @ fst r @ '' abilities='' @ concat (map (\<lambda>a. a @ '','') (snd r)) @ ''\<newline>''"

definition user_line :: "WebsUser \<Rightarrow> string" where
  "user_line u =
     ''user name='' @ u_name u @ '' password='' @ u_password u @ '' roles='' @ u_roles u @ ''\<newline>''"

definition auth_file_text ::
  "string \<Rightarrow> (string \<times> string list) list option \<Rightarrow> WebsUser list option \<Rightarrow> string" where
  "auth_file_text bn role_entries user_entries =
     ''#\<newline>#   '' @ bn @ '' - Authorization data\<newline>#\<newline>\<newline>''
     @ (case role_entries of None \<Rightarrow> [] | Some rs \<Rightarrow> concat (map role_line rs) @ ''\<newline>'')
     @ (case user_entries of None \<Rightarrow> [] | Some us \<Rightarrow> concat (map user_line us))"

text \<open>
  \<open>websWriteAuthFile(path)\<close>. The source hands the result of \<open>tempnam\<close> to \<open>fopen\<close> unchecked:
  with a null name the behaviour is undefined, result \<open>None\<close>. \<open>rename\<close> of a file that does
  not exist fails.
\<close>

definition websWriteAuthFile ::
  "save_os \<Rightarrow> (string \<times> string list) list option \<Rightarrow> WebsUser list option \<Rightarrow> fsys \<Rightarrow> string
     \<Rightarrow> save_outcome option" where
  "websWriteAuthFile os role_entries user_entries fs path =
     (case tempnam_result os of
        None \<Rightarrow> None
      | Some tempFile \<Rightarrow>
          (if \<not> fopen_ok os
           then Some \<lparr>save_rc = - 1, save_fs = fs, save_errors = [''Can't open '' @ tempFile],
                       save_calls = [Call_tempnam None ''tmp'', Call_fopen tempFile ''wt'']\<rparr>
           else
             (let text = auth_file_text (basename_result os) role_entries user_entries;
                  fs1 = fs(tempFile \<mapsto> text);
                  fs2 = (if unlink_ok os then fs1(path := None) else fs1);
                  calls = [Call_tempnam None ''tmp'', Call_fopen tempFile ''wt'', Call_write text,
                           Call_fclose, Call_unlink path, Call_rename tempFile path]
              in if fs2 tempFile = None \<or> \<not> rename_ok os
                 then Some \<lparr>save_rc = - 1, save_fs = fs2,
                             save_errors = [''Can't create new '' @ path], save_calls = calls\<rparr>
                 else Some \<lparr>save_rc = 0, save_fs = (fs2(tempFile := None))(path := fs2 tempFile),
                             save_errors = [], save_calls = calls\<rparr>)))"

section \<open>Example data\<close>

text \<open>
  Stand-ins for the parameters, used in the examples only: tables of the MD5 and base64
  values of the strings that occur, a formatter for \<open>%s\<close> and \<open>%x\<close>, and a reader of
  hexadecimal numbers.
\<close>

definition example_md5 :: "string \<Rightarrow> string" where
  "example_md5 s =
     (case map_of
        [(''alice:example.com:secret'', ''b1726872c344b6dc8365b774f8fd6412''),
         (''alice:example.com:wrong'', ''fe4f077aad53f484afc741d09a96d2bc''),
         (''mallory:example.com:pw'', ''0acc10dc4995bcdcad65a842d5887110''),
         (''GET:/index.html'', ''5f751b15eae8c79635edae8bf3b92354''),
         (''b1726872c344b6dc8365b774f8fd6412:Zm9yZ2VkLXNlY3JldDpleGFtcGxlLmNvbTpmNDFkYzow:00000001:0a4f113b:auth:5f751b15eae8c79635edae8bf3b92354'',
          ''62dc504f43cf7cb2c742efc0837177bb''),
         (''b1726872c344b6dc8365b774f8fd6412:NWViZTIyOTRlY2QwZTBmMDhlYWI3NjkwZDJhNmVlNjk6ZXhhbXBsZS5jb206ZjQxZGM6MA==:00000001:0a4f113b:auth:5f751b15eae8c79635edae8bf3b92354'',
          ''4f2bc02fea35421abaa74e0574ac1a5b''),
         (''b1726872c344b6dc8365b774f8fd6412:NWViZTIyOTRlY2QwZTBmMDhlYWI3NjkwZDJhNmVlNjk6ZXhhbXBsZS5jb206ZjQyNDA6ZjQyNDA6MA==:00000001:0a4f113b:auth:5f751b15eae8c79635edae8bf3b92354'',
          ''636b0d010e292785d82db28ebb2c1e3d'')] s of
        Some d \<Rightarrow> d
      | None \<Rightarrow> '''')"

definition example_decode64 :: "string \<Rightarrow> string option" where
  "example_decode64 s =
     map_of
       [(''YWxpY2U6c2VjcmV0'', ''alice:secret''),
        (''YWxpY2U6d3Jvbmc='', ''alice:wrong''),
        (''Zm9yZ2VkLXNlY3JldDpleGFtcGxlLmNvbTpmNDFkYzow'', ''forged-secret:example.com:f41dc:0''),
        (''NWViZTIyOTRlY2QwZTBmMDhlYWI3NjkwZDJhNmVlNjk6ZXhhbXBsZS5jb206ZjQxZGM6MA=='',
         ''5ebe2294ecd0e0f08eab7690d2a6ee69:example.com:f41dc:0''),
        (''NWViZTIyOTRlY2QwZTBmMDhlYWI3NjkwZDJhNmVlNjk6ZXhhbXBsZS5jb206ZjQxMTM6MA=='',
         ''5ebe2294ecd0e0f08eab7690d2a6ee69:example.com:f4113:0''),
        (''NWViZTIyOTRlY2QwZTBmMDhlYWI3NjkwZDJhNmVlNjk6b3RoZXIub3JnOmY0MWRjOjA='',
         ''5ebe2294ecd0e0f08eab7690d2a6ee69:other.org:f41dc:0''),
        (''NWViZTIyOTRlY2QwZTBmMDhlYWI3NjkwZDJhNmVlNjk6ZXhhbXBsZS5jb206ZjQyNDA6ZjQyNDA6MA=='',
         ''5ebe2294ecd0e0f08eab7690d2a6ee69:example.com:f4240:f4240:0'')] s"

definition example_encode64 :: "string \<Rightarrow> string" where
  "example_encode64 s =
     (case map_of
        [(''5ebe2294ecd0e0f08eab7690d2a6ee69:example.com:f41dc:0'',
          ''NWViZTIyOTRlY2QwZTBmMDhlYWI3NjkwZDJhNmVlNjk6ZXhhbXBsZS5jb206ZjQxZGM6MA==''),
         (''5ebe2294ecd0e0f08eab7690d2a6ee69:example.com:f4113:0'',
          ''NWViZTIyOTRlY2QwZTBmMDhlYWI3NjkwZDJhNmVlNjk6ZXhhbXBsZS5jb206ZjQxMTM6MA==''),
         (''5ebe2294ecd0e0f08eab7690d2a6ee69:other.org:f41dc:0'',
          ''NWViZTIyOTRlY2QwZTBmMDhlYWI3NjkwZDJhNmVlNjk6b3RoZXIub3JnOmY0MWRjOjA=''),
         (''5ebe2294ecd0e0f08eab7690d2a6ee69:example.com:f4240:f4240:0'',
          ''NWViZTIyOTRlY2QwZTBmMDhlYWI3NjkwZDJhNmVlNjk6ZXhhbXBsZS5jb206ZjQyNDA6ZjQyNDA6MA=='')] s of
        Some b \<Rightarrow> b
      | None \<Rightarrow> [])"

definition hex_digit :: "nat \<Rightarrow> char" where
  "hex_digit d = ''0123456789abcdef'' ! (d mod 16)"

function hex_of_nat :: "nat \<Rightarrow> string" where
  "hex_of_nat n = (if n < 16 then [hex_digit n] else hex_of_nat (n div 16) @ [hex_digit n])"
  by pat_completeness auto
termination
  by (relation "measure (\<lambda>n. n)") auto

declare hex_of_nat.simps [simp del]

definition show_arg :: "fmt_arg \<Rightarrow> string" where
  "show_arg a = (case a of S None \<Rightarrow> ''null'' | S (Some s) \<Rightarrow> s | X n \<Rightarrow> hex_of_nat (nat n))"

fun example_format :: "string \<Rightarrow> fmt_arg list \<Rightarrow> string" where
  "example_format (c # d # ds) (a # as) =
     (if c = CHR ''%'' then show_arg a @ example_format ds as
      else c # example_format (d # ds) (a # as))"
| "example_format (c # cs) as = c # example_format cs as"
| "example_format [] as = []"

definition hex_value :: "char \<Rightarrow> int option" where
  "hex_value c =
     (let n = (of_char c :: nat)
      in if 48 \<le> n \<and> n \<le> 57 then Some (int n - 48)
         else if 97 \<le> n \<and> n \<le> 102 then Some (int n - 87)
         else if 65 \<le> n \<and> n \<le> 70 then Some (int n - 55)
         else None)"

definition example_hextoi :: "string option \<Rightarrow> int" where
  "example_hextoi s =
     (case s of
        None \<Rightarrow> 0
      | Some h \<Rightarrow> foldl (\<lambda>v c. v * 16 + the (hex_value c)) 0
                   (takeWhile (\<lambda>c. hex_value c \<noteq> None) h))"

definition alice :: WebsUser where
  "alice = \<lparr>u_name = ''alice'', u_password = ''b1726872c344b6dc8365b774f8fd6412'',
            u_roles = ''admin'', u_abilities = 3, u_ability_keys = [''manage'', ''view'']\<rparr>"

definition example_env :: auth_env where
  "example_env =
     \<lparr>users = [''alice'' \<mapsto> alice],
      secret = Some ''5ebe2294ecd0e0f08eab7690d2a6ee69'',
      autoLogin = 0,
      BIT_REALM = ''example.com'',
      BIT_LIMIT_PASSWORD = 32,
      BIT_DIGEST = True,
      WEBS_SESSION_USERNAME = ''_:USERNAME:_'',
      websMD5 = example_md5,
      websDecode64 = example_decode64,
      websEncode64 = example_encode64,
      hextoi = example_hextoi,
      fmt = (\<lambda>n f args. take (n - 1) (example_format f args)),
      sfmt = example_format,
      time_now = 1000000,
      websGetServerUrl = ''http://localhost'',
      sclone_null = None,
      session_create_ok = True\<rparr>"

text \<open>A request with nothing set, on the route with pointer 0.\<close>

definition empty_request :: Webs where
  "empty_request =
     \<lparr>username = None, password = None, encoded = False, authType = None, authDetails = None,
      authResponse = None, cookie = None, user = None, digest = None, realm = None,
      nonce = None, cnonce = None, nc = None, qop = None, opaque = None, digestUri = None,
      wp_method = Some ''GET'', route = Some 0, vars = Map.empty, session = None, nonce_next = 0,
      events = []\<rparr>"

text \<open>Routes bound by \<open>websSetRouteAuth\<close>, verified by \<open>websVerifyPassword\<close>.\<close>

definition unbound_route :: "auth_env \<Rightarrow> WebsRoute" where
  "unbound_route cfg =
     \<lparr>route_authType = None, route_parseAuth = None, route_askLogin = None,
      route_verify = Some (\<lambda>wp. Some (websVerifyPassword cfg wp))\<rparr>"

definition basic_route :: "auth_env \<Rightarrow> WebsRoute" where
  "basic_route cfg = websSetRouteAuth cfg (unbound_route cfg) ''basic''"

definition digest_route :: "auth_env \<Rightarrow> WebsRoute" where
  "digest_route cfg = websSetRouteAuth cfg (unbound_route cfg) ''digest''"

definition example_fs :: fsys where
  "example_fs = [''/etc/goahead/auth.txt'' \<mapsto> ''user name=alice password=old roles=admin\<newline>'']"

definition example_os :: save_os where
  "example_os =
     \<lparr>tempnam_result = Some ''/tmp/tmpAAAa01'', fopen_ok = True, unlink_ok = True, rename_ok = False,
      basename_result = ''auth.txt''\<rparr>"

text \<open>Requests of the examples.\<close>

definition mallory_request :: Webs where
  "mallory_request = empty_request\<lparr>username := Some ''mallory'', password := Some ''pw''\<rparr>"

definition login_request :: Webs where
  "login_request =
     empty_request\<lparr>vars := [''username'' \<mapsto> ''alice'', ''password'' \<mapsto> ''wrong''],
       cookie := Some ''-goahead-session-=abc'', session := Some (\<lambda>k. None)\<rparr>"

definition rejected_state :: Webs where
  "rejected_state =
     snd (websVerifyPassword example_env
            (login_request\<lparr>username := Some ''alice'', password := Some ''wrong'',
               events := events login_request @ [Called_verify]\<rparr>))"

definition basic_header_request :: Webs where
  "basic_header_request =
     empty_request\<lparr>authType := Some ''basic'', authDetails := Some ''YWxpY2U6c2VjcmV0''\<rparr>"

definition cached_request :: Webs where
  "cached_request =
     empty_request\<lparr>cookie := Some ''-goahead-session-=abc'',
       session := Some ((\<lambda>k. None)(''_:USERNAME:_'' := Some ''alice''))\<rparr>"

text \<open>
  \<open>gated\<close>: the request is on a route that has an \<open>authType\<close>, and \<open>autoLogin\<close> is off, so
  \<open>websAuthenticate\<close> does not return at its first test.
\<close>

definition gated :: "auth_env \<Rightarrow> (nat \<Rightarrow> WebsRoute) \<Rightarrow> Webs \<Rightarrow> bool" where
  "gated cfg routes wp =
     (case route wp of
        None \<Rightarrow> False
      | Some p \<Rightarrow> route_authType (routes p) \<noteq> None \<and> autoLogin cfg = 0)"



text \<open>
  A Digest request of user \<open>alice\<close> whose nonce was not minted by this server: it decodes to
  \<open>forged-secret:example.com:f41dc:0\<close>, 100 seconds before \<open>time_now example_env\<close>. The
  response is the RFC 2617 digest for it. \<open>forged_fields\<close> is what the scan makes of the
  header.
\<close>

definition forged_nonce :: string where
  "forged_nonce = ''Zm9yZ2VkLXNlY3JldDpleGFtcGxlLmNvbTpmNDFkYzow''"

definition forged_header :: string where
  \<open>forged_header = ''username="alice", realm="example.com", nonce="Zm9yZ2VkLXNlY3JldDpleGFtcGxlLmNvbTpmNDFkYzow", uri="/index.html", qop=auth, nc=00000001, cnonce="0a4f113b", response="62dc504f43cf7cb2c742efc0837177bb"''\<close>

definition forged_request :: Webs where
  "forged_request = empty_request\<lparr>authType := Some ''digest'', authDetails := Some forged_header\<rparr>"

definition forged_fields :: "Webs \<Rightarrow> Webs" where
  "forged_fields wp =
     wp\<lparr>username := Some ''alice'', realm := Some ''example.com'',
        nonce := Some forged_nonce, digestUri := Some ''/index.html'', qop := Some ''auth'',
        nc := Some ''00000001'', cnonce := Some ''0a4f113b'',
        password := Some ''62dc504f43cf7cb2c742efc0837177bb'', encoded := True\<rparr>"

text \<open>The locals \<open>secret\<close>, \<open>realm\<close> and \<open>when\<close> that \<open>parseDigestNonce\<close> fills for a nonce.\<close>

definition nonce_secret :: "auth_env \<Rightarrow> string \<Rightarrow> string option" where
  "nonce_secret cfg n = fst (snd (parseDigestNonce cfg n))"

definition nonce_realm :: "auth_env \<Rightarrow> string \<Rightarrow> string option" where
  "nonce_realm cfg n = fst (snd (snd (parseDigestNonce cfg n)))"

definition nonce_when :: "auth_env \<Rightarrow> string \<Rightarrow> int" where
  "nonce_when cfg n = snd (snd (snd (parseDigestNonce cfg n)))"

text \<open>
  The same request with a nonce this server minted 100 seconds ago: it decodes to
  \<open>5ebe2294ecd0e0f08eab7690d2a6ee69:example.com:f41dc:0\<close>.
\<close>

definition minted_nonce :: string where
  "minted_nonce = ''NWViZTIyOTRlY2QwZTBmMDhlYWI3NjkwZDJhNmVlNjk6ZXhhbXBsZS5jb206ZjQxZGM6MA==''"

definition minted_header :: string where
  \<open>minted_header = ''username="alice", realm="example.com", nonce="NWViZTIyOTRlY2QwZTBmMDhlYWI3NjkwZDJhNmVlNjk6ZXhhbXBsZS5jb206ZjQxZGM6MA==", uri="/index.html", qop=auth, nc=00000001, cnonce="0a4f113b", response="4f2bc02fea35421abaa74e0574ac1a5b"''\<close>

definition minted_request :: Webs where
  "minted_request = empty_request\<lparr>authType := Some ''digest'', authDetails := Some minted_header\<rparr>"

definition minted_fields :: "Webs \<Rightarrow> Webs" where
  "minted_fields wp =
     wp\<lparr>username := Some ''alice'', realm := Some ''example.com'',
        nonce := Some minted_nonce, digestUri := Some ''/index.html'', qop := Some ''auth'',
        nc := Some ''00000001'', cnonce := Some ''0a4f113b'',
        password := Some ''4f2bc02fea35421abaa74e0574ac1a5b'', encoded := True\<rparr>"

text \<open>A nonce of this server minted 301 seconds ago, and one minted for realm \<open>other.org\<close>.\<close>

definition stale_nonce :: string where
  "stale_nonce = ''NWViZTIyOTRlY2QwZTBmMDhlYWI3NjkwZDJhNmVlNjk6ZXhhbXBsZS5jb206ZjQxMTM6MA==''"

definition other_realm_nonce :: string where
  "other_realm_nonce = ''NWViZTIyOTRlY2QwZTBmMDhlYWI3NjkwZDJhNmVlNjk6b3RoZXIub3JnOmY0MWRjOjA=''"

text \<open>
  A server that differs from \<open>example_env\<close> in its realm only, \<open>example.com:f4240\<close>, and the
  nonce it mints at the same time: the text
  \<open>5ebe2294ecd0e0f08eab7690d2a6ee69:example.com:f4240:f4240:0\<close>. \<open>colon_request\<close> presents
  that nonce to \<open>example_env\<close>.
\<close>

definition colon_env :: auth_env where
  "colon_env = example_env\<lparr>BIT_REALM := ''example.com:f4240''\<rparr>"

definition colon_nonce :: string where
  "colon_nonce = ''NWViZTIyOTRlY2QwZTBmMDhlYWI3NjkwZDJhNmVlNjk6ZXhhbXBsZS5jb206ZjQyNDA6ZjQyNDA6MA==''"

definition colon_header :: string where
  \<open>colon_header = ''username="alice", realm="example.com", nonce="NWViZTIyOTRlY2QwZTBmMDhlYWI3NjkwZDJhNmVlNjk6ZXhhbXBsZS5jb206ZjQyNDA6ZjQyNDA6MA==", uri="/index.html", qop=auth, nc=00000001, cnonce="0a4f113b", response="636b0d010e292785d82db28ebb2c1e3d"''\<close>

definition colon_request :: Webs where
  "colon_request = empty_request\<lparr>authType := Some ''digest'', authDetails := Some colon_header\<rparr>"

definition colon_fields :: "Webs \<Rightarrow> Webs" where
  "colon_fields wp =
     wp\<lparr>username := Some ''alice'', realm := Some ''example.com'',
        nonce := Some colon_nonce, digestUri := Some ''/index.html'', qop := Some ''auth'',
        nc := Some ''00000001'', cnonce := Some ''0a4f113b'',
        password := Some ''636b0d010e292785d82db28ebb2c1e3d'', encoded := True\<rparr>"

text \<open>
  Servers that differ from \<open>example_env\<close> in the realm \<open>other.org\<close> and in the clock: they
  mint \<open>other_realm_nonce\<close> and \<open>stale_nonce\<close>.
\<close>

definition other_realm_env :: auth_env where
  "other_realm_env = example_env\<lparr>BIT_REALM := ''other.org'', time_now := 999900\<rparr>"

definition earlier_env :: auth_env where
  "earlier_env = example_env\<lparr>time_now := 999699\<rparr>"

text \<open>A field of the nonce text that the tokenizer returns whole: not empty, no colon.\<close>

definition plain_field :: "string \<Rightarrow> bool" where
  "plain_field s = (s \<noteq> [] \<and> CHR '':'' \<notin> set s)"

text \<open>The text \<open>createDigestNonce\<close> formats and hands to \<open>websEncode64\<close>.\<close>

definition nonce_text :: "auth_env \<Rightarrow> Webs \<Rightarrow> string" where
  "nonce_text cfg wp =
     fmt cfg 256 ''%s:%s:%x:%x''
       [S (secret cfg), S (Some (BIT_REALM cfg)), X (time_now cfg), X (sint (nonce_next wp))]"

section \<open>Properties of the ability resolver\<close>

text \<open>
  Every call lies in the domain of the recursion (the accessible part of its call relation):
  the recursion is well-founded whatever the role table holds.
\<close>

lemma computeAbilities_total: "All computeAbilities_abilitiesLoop_dom"
  by (relation "measures [depth_measure, keys_measure]")
     (auto simp: depth_measure_def keys_measure_def)

lemma rolesLoop_total: "All rolesLoop_dom"
  by (relation "measure (\<lambda>(roles, st, pos). position_size pos)")
     (auto dest: stok_position_decreases [OF sym])

lemma extends_refl: "extends st st"
  by (simp add: extends_def)

lemma extends_trans:
  assumes "extends a b" and "extends b c"
  shows "extends a c"
proof -
  from assms have "prefix (keys a) (keys b)" "prefix (keys b) (keys c)"
    by (simp_all add: extends_def)
  then have 1: "prefix (keys a) (keys c)" by (rule prefix_order.trans)
  from assms have "prefix (errors a) (errors b)" "prefix (errors b) (errors c)"
    by (simp_all add: extends_def)
  then have 2: "prefix (errors a) (errors c)" by (rule prefix_order.trans)
  from assms have "handle c = handle a" by (simp add: extends_def)
  with 1 2 show ?thesis by (simp add: extends_def)
qed

lemma hashEnter_extends: "extends st (hashEnter st role)"
  by (simp add: hashEnter_def extends_def)

lemma error_msg_extends: "extends st (error_msg st m)"
  by (simp add: error_msg_def extends_def)

lemma computeAbilities_extends:
  "extends st (computeAbilities roles st role depth)"
  "extends st (abilitiesLoop roles st names depth)"
proof (induction roles st role depth and roles st names depth
       rule: computeAbilities_abilitiesLoop.induct)
  case (1 roles st role depth)
  show ?case
  proof (cases "20 < depth")
    case True
    then show ?thesis by (simp add: error_msg_extends)
  next
    case False
    show ?thesis
    proof (cases roles)
      case None
      with False show ?thesis by (simp add: extends_refl)
    next
      case (Some tab)
      show ?thesis
      proof (cases "tab role")
        case None
        with False Some show ?thesis by (simp add: hashEnter_extends)
      next
        case (Some ks)
        with False \<open>roles = Some tab\<close> "1.IH" show ?thesis by simp
      qed
    qed
  qed
next
  case (2 roles st depth)
  show ?case by (simp add: extends_refl)
next
  case (3 roles st k ks depth)
  have "extends st (abilitiesLoop roles (computeAbilities roles st k (depth + 1)) ks (depth + 1))"
    using "3.IH"(1) "3.IH"(2) by (rule extends_trans)
  then show ?case by simp
qed

lemma rolesLoop_extends: "extends st (rolesLoop roles st pos)"
proof (induction roles st pos rule: rolesLoop.induct)
  case (1 roles st pos)
  show ?case
  proof (cases "stok pos [CHR '' '', CHR 0x09, CHR '','']")
    case (Pair tok pos')
    show ?thesis
    proof (cases tok)
      case None
      with Pair show ?thesis by (simp add: extends_refl)
    next
      case (Some ability)
      with Pair "1.IH" have "extends (computeAbilities roles st ability 0)
                               (rolesLoop roles (computeAbilities roles st ability 0) pos')"
        by simp
      with computeAbilities_extends(1) [of st roles ability 0]
      have "extends st (rolesLoop roles (computeAbilities roles st ability 0) pos')"
        by (rule extends_trans)
      with Pair Some show ?thesis by simp
    qed
  qed
qed

text \<open>
  The loop hands the first member of a role \<open>depth + 1\<close>, the second \<open>depth + 2\<close>, and so on.
\<close>

lemma abilitiesLoop_depths:
  "abilitiesLoop roles st [k1, k2, k3] depth
     = computeAbilities roles
         (computeAbilities roles (computeAbilities roles st k1 (depth + 1)) k2 (depth + 2))
         k3 (depth + 3)"
  by (simp add: add.assoc)

text \<open>
  Scenario F of the specification (roles \<open>a \<rightarrow> {b}\<close>, \<open>b \<rightarrow> {a, terminal}\<close>, user with
  \<open>roles=a\<close>): the closure is \<open>{terminal}\<close> and the recursion error is logged.
\<close>

lemma scenario_F:
  "computeUserAbilities cyclic_roles 5 (example_user ''a'')
     = ((example_user ''a'')\<lparr>u_abilities := 5, u_ability_keys := [''terminal'']\<rparr>,
        [''Recursive ability definition for b'', ''Recursive ability definition for terminal''])"
  by (simp add: computeUserAbilities_def cyclic_roles_def example_user_def hashEnter_def
        error_msg_def)

text \<open>
  C8. For every role table, cyclic or not, and every starting state the expansion
  terminates: each call of \<open>computeAbilities\<close> and of the token loop of
  \<open>computeUserAbilities\<close> lies in the domain of the recursion. A call at a depth above 20
  only logs "Recursive ability definition for <role>" and returns the state otherwise as it
  was; and no call ever removes a key or a message: what was built so far is retained.
\<close>

theorem computeAbilities_terminates_bounded:
  "computeAbilities_abilitiesLoop_dom (Inl (roles, st, role, depth))
   \<and> rolesLoop_dom (roles, st, pos)
   \<and> (20 < depth \<longrightarrow>
         computeAbilities roles st role depth
           = st\<lparr>errors := errors st @ [''Recursive ability definition for '' @ role]\<rparr>)
   \<and> extends st (computeAbilities roles st role depth)
   \<and> extends st (rolesLoop roles st pos)"
proof -
  have "computeAbilities_abilitiesLoop_dom (Inl (roles, st, role, depth))"
    using computeAbilities_total by blast
  moreover have "rolesLoop_dom (roles, st, pos)"
    using rolesLoop_total by blast
  moreover have "20 < depth \<longrightarrow>
         computeAbilities roles st role depth
           = st\<lparr>errors := errors st @ [''Recursive ability definition for '' @ role]\<rparr>"
    by (simp add: error_msg_def)
  ultimately show ?thesis
    using computeAbilities_extends(1) [of st roles role depth] rolesLoop_extends [of st roles pos]
    by blast
qed

theorem computeAbilities_terminates_bounded_witness:
  "(20::int) < 21
   \<and> computeAbilities cyclic_roles \<lparr>handle = 5, keys = [''terminal''], errors = []\<rparr> ''b'' 21
       = \<lparr>handle = 5, keys = [''terminal''], errors = [''Recursive ability definition for b'']\<rparr>"
  using computeAbilities_terminates_bounded
    [of cyclic_roles "\<lparr>handle = 5, keys = [''terminal''], errors = []\<rparr>" "''b''" 21 None]
  by simp

text \<open>
  C4. A role \<open>r\<close> with the 21 terminal abilities \<open>a01\<close> .. \<open>a21\<close> and a user with
  \<open>roles=r\<close>: the role graph is acyclic and one level deep. The loop passes \<open>++depth\<close>, so
  the members are expanded at depths 1, 2, .., 21 instead of all at depth 1; \<open>a21\<close> arrives at
  depth 21, is reported as a recursive definition and is missing from the user's abilities.
\<close>

theorem computeUserAbilities_wide_role_drops_ability:
  "computeUserAbilities wide_roles 5 (example_user ''r'')
     = ((example_user ''r'')\<lparr>u_abilities := 5, u_ability_keys :=
          [''a01'', ''a02'', ''a03'', ''a04'', ''a05'', ''a06'', ''a07'', ''a08'', ''a09'', ''a10'',
           ''a11'', ''a12'', ''a13'', ''a14'', ''a15'', ''a16'', ''a17'', ''a18'', ''a19'', ''a20'']\<rparr>,
        [''Recursive ability definition for a21''])"
  by (simp add: computeUserAbilities_def wide_roles_def example_user_def hashEnter_def
        error_msg_def)

section \<open>Properties of the credential verifier and of form login\<close>

text \<open>
  C9, as the code has it. \<open>websVerifyPassword\<close> normalizes the password first and looks the
  user up second. For a request with no user bound whose user name is not in the store,
  verification fails; the password field is as it was only if \<open>encoded\<close> was already set,
  otherwise it holds the MD5 of the formatted \<open>username:realm:password\<close>, and \<open>encoded\<close> is
  set.
\<close>

theorem websVerifyPassword_unknown_user:
  assumes "user wp = None" and "websLookupUser cfg (username wp) = None"
  shows "fst (websVerifyPassword cfg wp) = False
     \<and> password (snd (websVerifyPassword cfg wp))
         = (if encoded wp then password wp
            else Some (websMD5 cfg (fmt cfg (BIT_LIMIT_PASSWORD cfg * 3 + 3) ''%s:%s:%s''
                         [S (username wp), S (Some (BIT_REALM cfg)), S (password wp)])))
     \<and> encoded (snd (websVerifyPassword cfg wp))"
  using assms by (simp add: websVerifyPassword_def Let_def trace_def)

theorem websVerifyPassword_unknown_user_witness:
  "user mallory_request = None \<and> websLookupUser example_env (username mallory_request) = None
   \<and> fst (websVerifyPassword example_env mallory_request) = False
   \<and> password (snd (websVerifyPassword example_env mallory_request))
       = Some ''0acc10dc4995bcdcad65a842d5887110''"
  using websVerifyPassword_unknown_user [of mallory_request example_env]
  by (simp add: mallory_request_def empty_request_def example_env_def websLookupUser_def
        example_md5_def show_arg_def)

text \<open>
  C9 as stated fails: user \<open>mallory\<close> is not in the store and the password \<open>pw\<close> arrives
  unencoded; verification fails and the password field has been overwritten.
\<close>

theorem websVerifyPassword_overwrites_password_counterexample:
  "websLookupUser example_env (username mallory_request) = None
   \<and> fst (websVerifyPassword example_env mallory_request) = False
   \<and> password mallory_request = Some ''pw''
   \<and> password (snd (websVerifyPassword example_env mallory_request))
       = Some ''0acc10dc4995bcdcad65a842d5887110''"
  by (simp add: websVerifyPassword_def Let_def trace_def mallory_request_def empty_request_def
        example_env_def websLookupUser_def example_md5_def show_arg_def)

lemma websVerifyPassword_session:
  "session (snd (websVerifyPassword cfg wp)) = session wp"
  by (simp add: websVerifyPassword_def Let_def trace_def split: option.splits)

text \<open>
  C10. When the route has a verifier and the verifier rejects the credentials,
  \<open>websLoginUser\<close> returns false and hands back the request as the verifier left it, with
  one trace message added: it writes no session variable. With the built-in verifier
  \<open>websVerifyPassword\<close> the session is the one the request came with.
\<close>

theorem websLoginUser_rejected:
  assumes "route wp = Some p" and "route_verify (routes p) = Some verify"
    and "verify (wp\<lparr>username := Some uname, password := Some pass,
                     events := events wp @ [Called_verify]\<rparr>) = Some (False, wp')"
  shows "websLoginUser cfg routes wp uname pass
           = Some (False, trace wp' 2 ''Password does not match\<newline>'' [])
         \<and> session (trace wp' 2 ''Password does not match\<newline>'' []) = session wp'
         \<and> (verify = (\<lambda>w. Some (websVerifyPassword cfg w)) \<longrightarrow> session wp' = session wp)"
proof -
  have 1: "websLoginUser cfg routes wp uname pass
           = Some (False, trace wp' 2 ''Password does not match\<newline>'' [])"
    using assms by (simp add: websLoginUser_def sclone_def Let_def)
  have 2: "session (trace wp' 2 ''Password does not match\<newline>'' []) = session wp'"
    by (simp add: trace_def)
  have 3: "verify = (\<lambda>w. Some (websVerifyPassword cfg w)) \<longrightarrow> session wp' = session wp"
  proof
    assume v: "verify = (\<lambda>w. Some (websVerifyPassword cfg w))"
    with assms(3) have "websVerifyPassword cfg (wp\<lparr>username := Some uname, password := Some pass,
                     events := events wp @ [Called_verify]\<rparr>) = (False, wp')"
      by simp
    then have "session wp' = session (snd (websVerifyPassword cfg (wp\<lparr>username := Some uname,
                     password := Some pass, events := events wp @ [Called_verify]\<rparr>)))"
      by simp
    then show "session wp' = session wp"
      by (simp only: websVerifyPassword_session) simp
  qed
  from 1 2 3 show ?thesis by (intro conjI)
qed

theorem websLoginUser_rejected_witness:
  "route login_request = Some 0
   \<and> fst (websVerifyPassword example_env (login_request\<lparr>username := Some ''alice'',
             password := Some ''wrong'', events := events login_request @ [Called_verify]\<rparr>)) = False
   \<and> websLoginUser example_env (\<lambda>p. basic_route example_env) login_request ''alice'' ''wrong''
       = Some (False, trace rejected_state 2 ''Password does not match\<newline>'' [])
   \<and> session rejected_state = session login_request"
proof -
  have r: "route login_request = Some 0"
    by (simp add: login_request_def empty_request_def)
  have v: "route_verify (basic_route example_env)
             = Some (\<lambda>w. Some (websVerifyPassword example_env w))"
    by (simp add: basic_route_def unbound_route_def websSetRouteAuth_def smatch_def)
  have f: "fst (websVerifyPassword example_env (login_request\<lparr>username := Some ''alice'',
             password := Some ''wrong'', events := events login_request @ [Called_verify]\<rparr>)) = False"
    by (simp add: login_request_def empty_request_def websVerifyPassword_def Let_def trace_def
        websLookupUser_def example_env_def example_md5_def show_arg_def alice_def smatch_def)
  then have e: "Some (websVerifyPassword example_env (login_request\<lparr>username := Some ''alice'',
             password := Some ''wrong'', events := events login_request @ [Called_verify]\<rparr>))
        = Some (False, rejected_state)"
    unfolding rejected_state_def by (simp add: prod_eq_iff)
  have s: "session rejected_state = session login_request"
    unfolding rejected_state_def by (simp only: websVerifyPassword_session) simp
  from websLoginUser_rejected [of login_request 0 "\<lambda>p. basic_route example_env", OF r v e,
      of example_env]
  have "websLoginUser example_env (\<lambda>p. basic_route example_env) login_request ''alice'' ''wrong''
       = Some (False, trace rejected_state 2 ''Password does not match\<newline>'' [])"
    by (rule conjunct1)
  with r f s show ?thesis by (intro conjI)
qed

text \<open>
  The other direction: \<open>websLoginUser\<close> returns true only when the verifier has accepted,
  and then the request is the verifier's with the session user name written.
\<close>

lemma websLoginUser_accepted:
  assumes "websLoginUser cfg routes wp uname pass = Some (True, w)"
  shows "\<exists>p verify wp'. route wp = Some p \<and> route_verify (routes p) = Some verify
           \<and> verify (wp\<lparr>username := Some uname, password := Some pass,
                           events := events wp @ [Called_verify]\<rparr>) = Some (True, wp')
           \<and> w = websSetSessionVar wp' (WEBS_SESSION_USERNAME cfg) (username wp')"
  using assms
  by (auto simp: websLoginUser_def sclone_def Let_def split: option.splits if_splits)

text \<open>
  The login action on a rejected login: the route's \<open>askLogin\<close>, if any, and a 401 redirect;
  no session variable is written on the way.
\<close>

lemma loginServiceProc_rejected:
  assumes "route wp = Some p" and "route_verify (routes p) = Some verify"
    and "verify (wp\<lparr>username := Some (websGetVar wp ''username'' ''''),
                     password := Some (websGetVar wp ''password'' ''''),
                     events := events wp @ [Called_verify]\<rparr>) = Some (False, wp')"
  shows "loginServiceProc cfg routes wp
           = Some (websRedirectByStatus
                     (askLogin_if_set (routes p) (trace wp' 2 ''Password does not match\<newline>'' []))
                     HTTP_CODE_UNAUTHORIZED)"
  using assms
  by (simp add: loginServiceProc_def websLoginUser_def sclone_def Let_def askLogin_if_set_def
        split: option.splits)

section \<open>Properties of the authorization gate\<close>

lemma cached_identity_none:
  assumes "cookie wp = None \<or> session wp = None
             \<or> (\<exists>vs. session wp = Some vs \<and> vs (WEBS_SESSION_USERNAME cfg) = None)"
  shows "cached_identity cfg wp = (False, wp)"
  using assms
  by (auto simp: cached_identity_def websGetSession_def websGetSessionVar_def
        split: option.splits)

text \<open>
  C6, as the code has it. On a route that has an \<open>authType\<close>, with \<open>autoLogin\<close> off, a request
  with no cached identity (no cookie, no session, or no user name in the session) whose
  \<open>authType\<close> differs from the route's is answered with error 400 and \<open>websAuthenticate\<close>
  returns false. Nothing else happens to the request: no function pointer of the route is
  called.
\<close>

theorem websAuthenticate_wrong_protocol:
  assumes "route wp = Some p" and "route_authType (routes p) = Some rt" and "autoLogin cfg = 0"
    and "cookie wp = None \<or> session wp = None
           \<or> (\<exists>vs. session wp = Some vs \<and> vs (WEBS_SESSION_USERNAME cfg) = None)"
    and "authType wp = Some at" and "at \<noteq> rt"
  shows "websAuthenticate cfg routes wp
           = Some (False, wp\<lparr>events := events wp @
               [Sent_error 400 ''Access denied. Wrong authentication protocol type.'']\<rparr>)"
  using assms(1,2,3,5,6) cached_identity_none [OF assms(4)]
  by (simp add: websAuthenticate_def authenticate_uncached_def smatch_def websError_def
        HTTP_CODE_BAD_REQUEST_def)

theorem websAuthenticate_wrong_protocol_witness:
  "route basic_header_request = Some 0
   \<and> route_authType (digest_route example_env) = Some ''digest''
   \<and> autoLogin example_env = 0 \<and> cookie basic_header_request = None
   \<and> authType basic_header_request = Some ''basic''
   \<and> websAuthenticate example_env (\<lambda>p. digest_route example_env) basic_header_request
       = Some (False, basic_header_request\<lparr>events :=
               [Sent_error 400 ''Access denied. Wrong authentication protocol type.'']\<rparr>)"
  using websAuthenticate_wrong_protocol [of basic_header_request 0 "\<lambda>p. digest_route example_env"
          "''digest''" example_env "''basic''"]
  by (simp add: basic_header_request_def empty_request_def digest_route_def unbound_route_def
        websSetRouteAuth_def smatch_def sclone_def example_env_def)

text \<open>
  C6 as stated fails when \<open>autoLogin\<close> is on: a Basic header on a Digest route, no cached
  identity, and \<open>websAuthenticate\<close> returns true without any response.
\<close>

theorem websAuthenticate_autoLogin_counterexample:
  "route basic_header_request = Some 0
   \<and> route_authType (digest_route (example_env\<lparr>autoLogin := 1\<rparr>)) = Some ''digest''
   \<and> cookie basic_header_request = None
   \<and> authType basic_header_request = Some ''basic''
   \<and> websAuthenticate (example_env\<lparr>autoLogin := 1\<rparr>)
        (\<lambda>p. digest_route (example_env\<lparr>autoLogin := 1\<rparr>)) basic_header_request
       = Some (True, basic_header_request)"
  by (simp add: websAuthenticate_def basic_header_request_def empty_request_def digest_route_def
        unbound_route_def websSetRouteAuth_def smatch_def sclone_def example_env_def)

text \<open>
  C7, as the code has it. A request with a cookie whose session holds a user name is
  admitted, and nothing is recorded on the way: neither \<open>parseAuth\<close> nor \<open>verify\<close> nor
  \<open>askLogin\<close> is called. The user name is copied into the request when the request is
  \<open>gated\<close>; otherwise \<open>websAuthenticate\<close> has returned before it looks at the session.
\<close>

theorem websAuthenticate_cached:
  assumes "cookie wp = Some c" and "session wp = Some vs"
    and "vs (WEBS_SESSION_USERNAME cfg) = Some uname"
  shows "websAuthenticate cfg routes wp
           = Some (True, if gated cfg routes wp then wp\<lparr>username := Some uname\<rparr> else wp)
         \<and> (\<forall>wp'. websAuthenticate cfg routes wp = Some (True, wp') \<longrightarrow> events wp' = events wp)"
proof -
  from assms have "cached_identity cfg wp = (True, wp\<lparr>username := Some uname\<rparr>)"
    by (simp add: cached_identity_def websGetSession_def websGetSessionVar_def sclone_def)
  then have "websAuthenticate cfg routes wp
           = Some (True, if gated cfg routes wp then wp\<lparr>username := Some uname\<rparr> else wp)"
    by (simp add: websAuthenticate_def gated_def split: option.splits)
  then show ?thesis by simp
qed

theorem websAuthenticate_cached_witness:
  "cookie cached_request = Some ''-goahead-session-=abc''
   \<and> gated example_env (\<lambda>p. digest_route example_env) cached_request
   \<and> websAuthenticate example_env (\<lambda>p. digest_route example_env) cached_request
       = Some (True, cached_request\<lparr>username := Some ''alice''\<rparr>)"
  using websAuthenticate_cached [of cached_request "''-goahead-session-=abc''"
          "(\<lambda>k. None)(''_:USERNAME:_'' := Some ''alice'')" example_env "''alice''"
          "\<lambda>p. digest_route example_env"]
  by (simp add: cached_request_def empty_request_def gated_def digest_route_def unbound_route_def
        websSetRouteAuth_def smatch_def sclone_def example_env_def)

text \<open>
  C7 as stated fails when \<open>autoLogin\<close> is on: the session holds \<open>alice\<close>, the request is
  admitted, and its \<open>username\<close> is still null.
\<close>

theorem websAuthenticate_cached_autoLogin_counterexample:
  "cookie cached_request = Some ''-goahead-session-=abc''
   \<and> websGetSessionVar cached_request (WEBS_SESSION_USERNAME example_env) None = Some ''alice''
   \<and> websAuthenticate (example_env\<lparr>autoLogin := 1\<rparr>)
        (\<lambda>p. digest_route (example_env\<lparr>autoLogin := 1\<rparr>)) cached_request
       = Some (True, cached_request)
   \<and> username cached_request = None"
  by (simp add: websAuthenticate_def cached_request_def empty_request_def digest_route_def
        unbound_route_def websSetRouteAuth_def smatch_def sclone_def example_env_def
        websGetSessionVar_def)

section \<open>Properties of saving the store\<close>

lemma auth_file_text_example:
  "auth_file_text ''auth.txt'' (Some [(''admin'', [''manage'', ''view''])]) (Some [alice])
     = ''#\<newline>#   auth.txt - Authorization data\<newline>#\<newline>\<newline>role name=admin abilities=manage,view,\<newline>\<newline>user name=alice password=b1726872c344b6dc8365b774f8fd6412 roles=admin\<newline>''"
  by (simp add: auth_file_text_def role_line_def user_line_def alice_def)

text \<open>
  C3, as the code has it, for a call in which \<open>tempnam\<close> returns a name (other than the
  target). The calls are \<open>tempnam(NULL, "tmp")\<close>, where the target's directory is no
  argument, \<open>fopen\<close> of that name and, when it succeeds, the writes, \<open>fclose\<close>, \<open>unlink\<close> of the
  target and \<open>rename\<close> of the temporary file to the target; no other call is made, none to
  \<open>fsync\<close>.
  \<^item> When \<open>fopen\<close> fails, the function returns -1 and the file system is unchanged.
  \<^item> When \<open>rename\<close> fails, it returns -1 and the new text stays in the temporary file; the
    original file is gone if the \<open>unlink\<close> succeeded and is unchanged if the \<open>unlink\<close> failed.
  \<^item> When \<open>rename\<close> succeeds, it returns 0, the target holds the new text and the temporary
    name is gone.
\<close>

theorem websWriteAuthFile_outcomes:
  assumes "tempnam_result os = Some tempFile" and "tempFile \<noteq> path"
  shows "(\<not> fopen_ok os \<longrightarrow>
            websWriteAuthFile os role_entries user_entries fs path
              = Some \<lparr>save_rc = - 1, save_fs = fs, save_errors = [''Can't open '' @ tempFile],
                       save_calls = [Call_tempnam None ''tmp'', Call_fopen tempFile ''wt'']\<rparr>)
     \<and> (fopen_ok os \<and> \<not> rename_ok os \<longrightarrow>
            websWriteAuthFile os role_entries user_entries fs path
              = Some \<lparr>save_rc = - 1,
                       save_fs =
                         (if unlink_ok os
                          then (fs(tempFile \<mapsto> auth_file_text (basename_result os) role_entries
                                                  user_entries))(path := None)
                          else fs(tempFile \<mapsto> auth_file_text (basename_result os) role_entries
                                                 user_entries)),
                       save_errors = [''Can't create new '' @ path],
                       save_calls =
                         [Call_tempnam None ''tmp'', Call_fopen tempFile ''wt'',
                          Call_write (auth_file_text (basename_result os) role_entries
                                        user_entries),
                          Call_fclose, Call_unlink path, Call_rename tempFile path]\<rparr>
          \<and> save_fs (the (websWriteAuthFile os role_entries user_entries fs path)) path
              = (if unlink_ok os then None else fs path))
     \<and> (fopen_ok os \<and> rename_ok os \<longrightarrow>
            websWriteAuthFile os role_entries user_entries fs path
              = Some \<lparr>save_rc = 0,
                       save_fs = (fs(tempFile := None))
                                   (path \<mapsto> auth_file_text (basename_result os) role_entries
                                                user_entries),
                       save_errors = [],
                       save_calls =
                         [Call_tempnam None ''tmp'', Call_fopen tempFile ''wt'',
                          Call_write (auth_file_text (basename_result os) role_entries
                                        user_entries),
                          Call_fclose, Call_unlink path, Call_rename tempFile path]\<rparr>)"
proof (intro conjI impI)
  assume "\<not> fopen_ok os"
  with assms show "websWriteAuthFile os role_entries user_entries fs path
              = Some \<lparr>save_rc = - 1, save_fs = fs, save_errors = [''Can't open '' @ tempFile],
                       save_calls = [Call_tempnam None ''tmp'', Call_fopen tempFile ''wt'']\<rparr>"
    by (simp add: websWriteAuthFile_def)
next
  assume a: "fopen_ok os \<and> \<not> rename_ok os"
  with assms show "websWriteAuthFile os role_entries user_entries fs path
              = Some \<lparr>save_rc = - 1,
                       save_fs =
                         (if unlink_ok os
                          then (fs(tempFile \<mapsto> auth_file_text (basename_result os) role_entries
                                                  user_entries))(path := None)
                          else fs(tempFile \<mapsto> auth_file_text (basename_result os) role_entries
                                                 user_entries)),
                       save_errors = [''Can't create new '' @ path],
                       save_calls =
                         [Call_tempnam None ''tmp'', Call_fopen tempFile ''wt'',
                          Call_write (auth_file_text (basename_result os) role_entries
                                        user_entries),
                          Call_fclose, Call_unlink path, Call_rename tempFile path]\<rparr>"
    by (simp add: websWriteAuthFile_def Let_def)
  from a assms show "save_fs (the (websWriteAuthFile os role_entries user_entries fs path)) path
              = (if unlink_ok os then None else fs path)"
    by (simp add: websWriteAuthFile_def Let_def)
next
  assume a: "fopen_ok os \<and> rename_ok os"
  have "((if unlink_ok os
          then (fs(tempFile \<mapsto> auth_file_text (basename_result os) role_entries user_entries))
                 (path := None)
          else fs(tempFile \<mapsto> auth_file_text (basename_result os) role_entries user_entries))
           (tempFile := None))
          (path \<mapsto> auth_file_text (basename_result os) role_entries user_entries)
        = (fs(tempFile := None))
            (path \<mapsto> auth_file_text (basename_result os) role_entries user_entries)"
    using assms(2) by (auto simp: fun_eq_iff)
  with a assms show "websWriteAuthFile os role_entries user_entries fs path
              = Some \<lparr>save_rc = 0,
                       save_fs = (fs(tempFile := None))
                                   (path \<mapsto> auth_file_text (basename_result os) role_entries
                                                user_entries),
                       save_errors = [],
                       save_calls =
                         [Call_tempnam None ''tmp'', Call_fopen tempFile ''wt'',
                          Call_write (auth_file_text (basename_result os) role_entries
                                        user_entries),
                          Call_fclose, Call_unlink path, Call_rename tempFile path]\<rparr>"
    by (simp add: websWriteAuthFile_def Let_def)
qed

text \<open>
  The three outcomes at the example file system: \<open>fopen\<close> fails; \<open>rename\<close> fails after the
  \<open>unlink\<close> failed too; \<open>rename\<close> succeeds.
\<close>

theorem websWriteAuthFile_outcomes_witness:
  "tempnam_result example_os = Some ''/tmp/tmpAAAa01''
   \<and> ''/tmp/tmpAAAa01'' \<noteq> ''/etc/goahead/auth.txt''
   \<and> \<not> fopen_ok (example_os\<lparr>fopen_ok := False\<rparr>)
   \<and> websWriteAuthFile (example_os\<lparr>fopen_ok := False\<rparr>) None (Some [alice]) example_fs
         ''/etc/goahead/auth.txt''
       = Some \<lparr>save_rc = - 1, save_fs = example_fs,
                save_errors = [''Can't open /tmp/tmpAAAa01''],
                save_calls = [Call_tempnam None ''tmp'', Call_fopen ''/tmp/tmpAAAa01'' ''wt'']\<rparr>
   \<and> fopen_ok (example_os\<lparr>unlink_ok := False\<rparr>) \<and> \<not> rename_ok (example_os\<lparr>unlink_ok := False\<rparr>)
   \<and> save_fs (the (websWriteAuthFile (example_os\<lparr>unlink_ok := False\<rparr>) None (Some [alice])
                       example_fs ''/etc/goahead/auth.txt'')) ''/etc/goahead/auth.txt''
       = example_fs ''/etc/goahead/auth.txt''
   \<and> fopen_ok (example_os\<lparr>rename_ok := True\<rparr>) \<and> rename_ok (example_os\<lparr>rename_ok := True\<rparr>)
   \<and> websWriteAuthFile (example_os\<lparr>rename_ok := True\<rparr>) None (Some [alice]) example_fs
         ''/etc/goahead/auth.txt''
       = Some \<lparr>save_rc = 0,
                save_fs = (example_fs(''/tmp/tmpAAAa01'' := None))
                            (''/etc/goahead/auth.txt'' \<mapsto> auth_file_text ''auth.txt'' None (Some [alice])),
                save_errors = [],
                save_calls =
                  [Call_tempnam None ''tmp'', Call_fopen ''/tmp/tmpAAAa01'' ''wt'',
                   Call_write (auth_file_text ''auth.txt'' None (Some [alice])),
                   Call_fclose, Call_unlink ''/etc/goahead/auth.txt'',
                   Call_rename ''/tmp/tmpAAAa01'' ''/etc/goahead/auth.txt'']\<rparr>"
  using websWriteAuthFile_outcomes [of "example_os\<lparr>fopen_ok := False\<rparr>" "''/tmp/tmpAAAa01''"
          "''/etc/goahead/auth.txt''" None "Some [alice]" example_fs]
        websWriteAuthFile_outcomes [of "example_os\<lparr>unlink_ok := False\<rparr>" "''/tmp/tmpAAAa01''"
          "''/etc/goahead/auth.txt''" None "Some [alice]" example_fs]
        websWriteAuthFile_outcomes [of "example_os\<lparr>rename_ok := True\<rparr>" "''/tmp/tmpAAAa01''"
          "''/etc/goahead/auth.txt''" None "Some [alice]" example_fs]
  by (simp add: example_os_def)

text \<open>
  C3 as stated fails on a rename failure (for one, \<open>tempnam\<close> has named a file on another
  file system than the target): the \<open>unlink\<close> has succeeded, the save returns -1 and the
  original file is gone.
\<close>

theorem websWriteAuthFile_rename_failure_counterexample:
  "example_fs ''/etc/goahead/auth.txt'' = Some ''user name=alice password=old roles=admin\<newline>''
   \<and> (\<exists>r. websWriteAuthFile example_os None (Some [alice]) example_fs ''/etc/goahead/auth.txt''
             = Some r
          \<and> save_rc r = - 1 \<and> save_fs r ''/etc/goahead/auth.txt'' = None)"
  by (simp add: websWriteAuthFile_def Let_def example_os_def example_fs_def)

section \<open>Properties of Digest authentication\<close>

subsection \<open>The module's secret is never consulted\<close>

lemma sclone_secret: "sclone (cfg\<lparr>secret := s\<rparr>) = sclone cfg"
  by (rule ext) (simp add: sclone_def cong: option.case_cong)

lemma digest_field_secret: "digest_field (cfg\<lparr>secret := s\<rparr>) = digest_field cfg"
  unfolding digest_field_def sclone_secret by (rule refl)

lemma scan_pair_secret:
  "scan_pair (cfg\<lparr>secret := s\<rparr>) buf key wp = scan_pair cfg buf key wp"
  unfolding scan_pair_def digest_field_secret by (rule refl)

lemma scan_pairs_secret:
  "scan_pairs (cfg\<lparr>secret := s\<rparr>) buf key wp = scan_pairs cfg buf key wp"
proof (induction cfg buf key wp rule: scan_pairs.induct)
  case (1 cfg buf key wp)
  show ?case
  proof (cases "rd buf key")
    case None
    then show ?thesis
      by (simp add: scan_pairs.simps [of _ buf key wp])
  next
    case (Some c)
    show ?thesis
    proof (cases "c = NUL")
      case True
      with Some show ?thesis by (simp add: scan_pairs.simps [of _ buf key wp])
    next
      case False
      show ?thesis
      proof (cases "scan_pair cfg buf key wp")
        case None
        with Some False show ?thesis
          by (simp add: scan_pairs.simps [of _ buf key wp] scan_pair_secret)
      next
        case (Some x)
        obtain buf' key' wp' where x: "x = (buf', key', wp')" by (cases x) auto
        from "1.IH" [OF \<open>rd buf key = Some c\<close> False Some x [symmetric] refl]
        have "scan_pairs (cfg\<lparr>secret := s\<rparr>) buf' key' wp' = scan_pairs cfg buf' key' wp'" .
        with Some x \<open>rd buf key = Some c\<close> False show ?thesis
          by (simp add: scan_pairs.simps [of _ buf key wp] scan_pair_secret)
      qed
    qed
  qed
qed

lemma parseDigestNonce_secret:
  "parseDigestNonce (cfg\<lparr>secret := s\<rparr>) = parseDigestNonce cfg"
  by (rule ext) (simp add: parseDigestNonce_def cong: option.case_cong)

lemma websLookupUser_secret:
  "websLookupUser (cfg\<lparr>secret := s\<rparr>) = websLookupUser cfg"
  by (rule ext) (simp add: websLookupUser_def cong: option.case_cong)

lemma calcDigest_secret:
  "calcDigest (cfg\<lparr>secret := s\<rparr>) = calcDigest cfg"
  by (intro ext) (simp add: calcDigest_def sclone_secret cong: if_cong)

lemma digest_checks_secret:
  "digest_checks (cfg\<lparr>secret := s\<rparr>) wp = digest_checks cfg wp"
  unfolding digest_checks_def parseDigestNonce_secret websLookupUser_secret calcDigest_secret
    sclone_secret
  by (simp cong: if_cong option.case_cong prod.case_cong)

text \<open>
  Whatever the secret of the server is, \<open>parseDigestDetails\<close> does the same: the secret in
  the nonce is compared with itself only.
\<close>

lemma parseDigestDetails_ignores_secret:
  "parseDigestDetails (cfg\<lparr>secret := s\<rparr>) wp = parseDigestDetails cfg wp"
  unfolding parseDigestDetails_def sclone_secret scan_pairs_secret digest_checks_secret
  by (rule refl)

subsection \<open>The example requests\<close>

lemma scan_forged:
  "scan_pairs cfg (buffer_of forged_header) 0 wp = Some (forged_fields wp)"
  by (simp add: scan_pairs.simps scan_pair_def scan_while.simps unquote.simps rd_def wr_def
        cstr_at_def buffer_of_def NUL_def isspace_def digest_field_def tolower_def
        scaselesscmp_eq_def sclone_def Let_def forged_header_def forged_fields_def
        forged_nonce_def)

lemma scan_minted:
  "scan_pairs cfg (buffer_of minted_header) 0 wp = Some (minted_fields wp)"
  by (simp add: scan_pairs.simps scan_pair_def scan_while.simps unquote.simps rd_def wr_def
        cstr_at_def buffer_of_def NUL_def isspace_def digest_field_def tolower_def
        scaselesscmp_eq_def sclone_def Let_def minted_header_def minted_fields_def
        minted_nonce_def)

text \<open>A value without a quote that ends the header sends the scan out of the buffer.\<close>

lemma scan_unquoted_last_value:
  "scan_pairs cfg (buffer_of ''nc=00000001'') 0 wp = None"
  by (simp add: scan_pairs.simps scan_pair_def scan_while.simps unquote.simps rd_def wr_def
        cstr_at_def buffer_of_def NUL_def isspace_def digest_field_def tolower_def
        scaselesscmp_eq_def sclone_def Let_def)

lemma forged_nonce_parts:
  "parseDigestNonce example_env forged_nonce
     = (0, Some ''forged-secret'', Some ''example.com'', 999900)"
  by (simp add: parseDigestNonce_def forged_nonce_def example_env_def example_decode64_def
        example_hextoi_def hex_value_def Let_def)

lemma minted_nonce_parts:
  "parseDigestNonce example_env minted_nonce
     = (0, Some ''5ebe2294ecd0e0f08eab7690d2a6ee69'', Some ''example.com'', 999900)"
  by (simp add: parseDigestNonce_def minted_nonce_def example_env_def example_decode64_def
        example_hextoi_def hex_value_def Let_def)

lemma stale_nonce_parts:
  "parseDigestNonce example_env stale_nonce
     = (0, Some ''5ebe2294ecd0e0f08eab7690d2a6ee69'', Some ''example.com'', 999699)"
  by (simp add: parseDigestNonce_def stale_nonce_def example_env_def example_decode64_def
        example_hextoi_def hex_value_def Let_def)

lemma other_realm_nonce_parts:
  "parseDigestNonce example_env other_realm_nonce
     = (0, Some ''5ebe2294ecd0e0f08eab7690d2a6ee69'', Some ''other.org'', 999900)"
  by (simp add: parseDigestNonce_def other_realm_nonce_def example_env_def example_decode64_def
        example_hextoi_def hex_value_def Let_def)

lemma calcDigest_forged:
  assumes "wp_method wp = Some ''GET''" and "digestUri wp = Some ''/index.html''"
    and "qop wp = Some ''auth''" and "nonce wp = Some forged_nonce"
    and "nc wp = Some ''00000001''" and "cnonce wp = Some ''0a4f113b''"
  shows "calcDigest example_env wp None (Some ''b1726872c344b6dc8365b774f8fd6412'')
           = ''62dc504f43cf7cb2c742efc0837177bb''"
  using assms
  by (simp add: calcDigest_def sclone_def smatch_def Let_def)
     (simp add: example_env_def example_md5_def show_arg_def forged_nonce_def)

lemma calcDigest_minted:
  assumes "wp_method wp = Some ''GET''" and "digestUri wp = Some ''/index.html''"
    and "qop wp = Some ''auth''" and "nonce wp = Some minted_nonce"
    and "nc wp = Some ''00000001''" and "cnonce wp = Some ''0a4f113b''"
  shows "calcDigest example_env wp None (Some ''b1726872c344b6dc8365b774f8fd6412'')
           = ''4f2bc02fea35421abaa74e0574ac1a5b''"
  using assms
  by (simp add: calcDigest_def sclone_def smatch_def Let_def)
     (simp add: example_env_def example_md5_def show_arg_def minted_nonce_def)

lemma digest_checks_example:
  assumes "route wp = Some p" and "user wp = None"
    and "username wp = Some ''alice''" and "realm wp \<noteq> None" and "nonce wp = Some n"
    and "password wp \<noteq> None" and "qop wp = Some ''auth''" and "cnonce wp \<noteq> None"
    and "nc wp \<noteq> None"
    and "parseDigestNonce example_env n = (0, s, Some ''example.com'', t)"
    and "1000000 \<le> t + 300"
    and "calcDigest example_env (wp\<lparr>user := Some alice\<rparr>) None
           (Some ''b1726872c344b6dc8365b774f8fd6412'') = d"
  shows "digest_checks example_env wp = (True, wp\<lparr>user := Some alice, digest := Some d\<rparr>)"
proof -
  have u: "websLookupUser example_env (Some ''alice'') = Some alice"
    by (simp add: websLookupUser_def example_env_def)
  have t: "time_now example_env = 1000000" "BIT_REALM example_env = ''example.com''"
    by (simp_all add: example_env_def)
  have pw: "u_password alice = ''b1726872c344b6dc8365b774f8fd6412''"
    by (simp add: alice_def)
  from assms(11) have "\<not> t + 300 < 1000000" by simp
  with assms(1-10,12) show ?thesis
    by (simp add: digest_checks_def smatch_def t u pw)
qed

lemma parseDigestDetails_forged:
  assumes "authDetails wp = Some forged_header" and "route wp = Some p" and "user wp = None"
    and "wp_method wp = Some ''GET''"
  shows "parseDigestDetails example_env wp
           = Some (True, (forged_fields wp)\<lparr>user := Some alice,
                            digest := Some ''62dc504f43cf7cb2c742efc0837177bb''\<rparr>)"
proof -
  have "digest_checks example_env (forged_fields wp)
          = (True, (forged_fields wp)\<lparr>user := Some alice,
                      digest := Some ''62dc504f43cf7cb2c742efc0837177bb''\<rparr>)"
  proof (rule digest_checks_example [where n = forged_nonce and t = 999900])
    show "parseDigestNonce example_env forged_nonce
            = (0, Some ''forged-secret'', Some ''example.com'', 999900)"
      by (rule forged_nonce_parts)
    show "calcDigest example_env ((forged_fields wp)\<lparr>user := Some alice\<rparr>) None
            (Some ''b1726872c344b6dc8365b774f8fd6412'') = ''62dc504f43cf7cb2c742efc0837177bb''"
      by (rule calcDigest_forged) (simp_all add: forged_fields_def assms)
  qed (simp_all add: forged_fields_def assms)
  with assms(1) show ?thesis
    by (simp add: parseDigestDetails_def sclone_def scan_forged)
qed

lemma parseDigestDetails_minted:
  assumes "authDetails wp = Some minted_header" and "route wp = Some p" and "user wp = None"
    and "wp_method wp = Some ''GET''"
  shows "parseDigestDetails example_env wp
           = Some (True, (minted_fields wp)\<lparr>user := Some alice,
                            digest := Some ''4f2bc02fea35421abaa74e0574ac1a5b''\<rparr>)"
proof -
  have "digest_checks example_env (minted_fields wp)
          = (True, (minted_fields wp)\<lparr>user := Some alice,
                      digest := Some ''4f2bc02fea35421abaa74e0574ac1a5b''\<rparr>)"
  proof (rule digest_checks_example [where n = minted_nonce and t = 999900])
    show "parseDigestNonce example_env minted_nonce
            = (0, Some ''5ebe2294ecd0e0f08eab7690d2a6ee69'', Some ''example.com'', 999900)"
      by (rule minted_nonce_parts)
    show "calcDigest example_env ((minted_fields wp)\<lparr>user := Some alice\<rparr>) None
            (Some ''b1726872c344b6dc8365b774f8fd6412'') = ''4f2bc02fea35421abaa74e0574ac1a5b''"
      by (rule calcDigest_minted) (simp_all add: minted_fields_def assms)
  qed (simp_all add: minted_fields_def assms)
  with assms(1) show ?thesis
    by (simp add: parseDigestDetails_def sclone_def scan_minted)
qed

subsection \<open>C1: a nonce with a foreign secret\<close>

text \<open>
  C1. The server's secret is \<open>5ebe2294ecd0e0f08eab7690d2a6ee69\<close>; the nonce of
  \<open>forged_request\<close> decodes and carries the secret \<open>forged-secret\<close>. \<open>parseDigestDetails\<close>
  does not reject the request: it returns true, with the expected digest computed.
\<close>

theorem parseDigestDetails_accepts_forged_nonce:
  "secret example_env = Some ''5ebe2294ecd0e0f08eab7690d2a6ee69''
   \<and> nonce_secret example_env forged_nonce = Some ''forged-secret''
   \<and> parseDigestDetails example_env forged_request
       = Some (True, (forged_fields forged_request)\<lparr>user := Some alice,
                        digest := Some ''62dc504f43cf7cb2c742efc0837177bb''\<rparr>)"
proof -
  have "parseDigestDetails example_env forged_request
       = Some (True, (forged_fields forged_request)\<lparr>user := Some alice,
                        digest := Some ''62dc504f43cf7cb2c742efc0837177bb''\<rparr>)"
    by (rule parseDigestDetails_forged [of _ 0])
       (simp_all add: forged_request_def empty_request_def)
  moreover have "secret example_env = Some ''5ebe2294ecd0e0f08eab7690d2a6ee69''"
    by (simp add: example_env_def)
  moreover have "nonce_secret example_env forged_nonce = Some ''forged-secret''"
    by (simp add: nonce_secret_def forged_nonce_parts)
  ultimately show ?thesis by (intro conjI)
qed

lemma digest_route_example:
  "digest_route example_env
     = \<lparr>route_authType = Some ''digest'',
        route_parseAuth = Some (parseDigestDetails example_env),
        route_askLogin = Some (digestLogin example_env),
        route_verify = Some (\<lambda>wp. Some (websVerifyPassword example_env wp))\<rparr>"
proof -
  have "BIT_DIGEST example_env" by (simp add: example_env_def)
  then show ?thesis
    by (simp add: digest_route_def unbound_route_def websSetRouteAuth_def smatch_def sclone_def)
qed

text \<open>
  The gate then admits the request on a Digest route and binds \<open>alice\<close> to a new session.
\<close>

lemma websAuthenticate_forged_nonce:
  "\<exists>w. websAuthenticate example_env (\<lambda>p. digest_route example_env) forged_request = Some (True, w)
        \<and> username w = Some ''alice''
        \<and> session w = Some ((\<lambda>k. None)(''_:USERNAME:_'' := Some ''alice''))"
proof -
  define w1 where "w1 = (forged_fields (forged_request\<lparr>events := [Called_parseAuth]\<rparr>))
                           \<lparr>user := Some alice,
                            digest := Some ''62dc504f43cf7cb2c742efc0837177bb''\<rparr>"
  have p: "parseDigestDetails example_env (forged_request\<lparr>events := [Called_parseAuth]\<rparr>)
           = Some (True, w1)"
    unfolding w1_def
    by (rule parseDigestDetails_forged [of _ 0])
       (simp_all add: forged_request_def empty_request_def)
  have c: "cached_identity example_env forged_request = (False, forged_request)"
    by (simp add: cached_identity_def forged_request_def empty_request_def)
  have a: "autoLogin example_env = 0" "WEBS_SESSION_USERNAME example_env = ''_:USERNAME:_''"
    "session_create_ok example_env"
    by (simp_all add: example_env_def)
  have e: "events forged_request = []" "route forged_request = Some 0"
    "authType forged_request = Some ''digest''" "authDetails forged_request \<noteq> None"
    by (simp_all add: forged_request_def empty_request_def)
  have w: "username w1 = Some ''alice''" "encoded w1" "user w1 = Some alice"
    "digest w1 = Some ''62dc504f43cf7cb2c742efc0837177bb''"
    "password w1 = Some ''62dc504f43cf7cb2c742efc0837177bb''" "session w1 = None"
    by (simp_all add: w1_def forged_fields_def forged_request_def empty_request_def)
  define w2 where "w2 = w1\<lparr>events := events w1 @ [Called_verify]\<rparr>"
  have v: "fst (websVerifyPassword example_env w2)"
    "session (snd (websVerifyPassword example_env w2)) = None"
    "username (snd (websVerifyPassword example_env w2)) = Some ''alice''"
    by (simp_all add: websVerifyPassword_def w2_def w trace_def smatch_def)
  obtain w3 where w3: "websVerifyPassword example_env w2 = (True, w3)" "session w3 = None"
    "username w3 = Some ''alice''"
    using v by (cases "websVerifyPassword example_env w2") auto
  show ?thesis
    by (simp add: websAuthenticate_def digest_route_example c a e authenticate_uncached_def
          smatch_def p w w2_def [symmetric] w3 websGetSession_def websSetSessionVar_def)
qed

subsection \<open>C5: realm and age of the nonce\<close>

lemma digest_checks_accepts:
  assumes "digest_checks cfg wp1 = (True, wp')"
  shows "\<exists>n. nonce wp1 = Some n \<and> nonce wp' = Some n
            \<and> nonce_realm cfg n = Some (BIT_REALM cfg)
            \<and> time_now cfg \<le> nonce_when cfg n + 300"
proof -
  from assms obtain n where n: "nonce wp1 = Some n"
    by (cases "nonce wp1") (auto simp: digest_checks_def)
  obtain rc s r t where p: "parseDigestNonce cfg n = (rc, s, r, t)"
    by (cases "parseDigestNonce cfg n") auto
  from assms n p have "r = Some (BIT_REALM cfg)"
    by (auto simp: digest_checks_def Let_def smatch_def split: if_splits option.splits)
  moreover from assms n p have "\<not> t + 300 < time_now cfg"
    by (auto simp: digest_checks_def Let_def smatch_def split: if_splits option.splits)
  moreover from assms n p have "nonce wp' = Some n"
    by (auto simp: digest_checks_def Let_def smatch_def trace_def split: if_splits option.splits)
  ultimately show ?thesis
    using n p by (simp add: nonce_realm_def nonce_when_def)
qed

lemma digest_checks_rejects:
  assumes "nonce wp1 = Some n"
    and "nonce_realm cfg n \<noteq> Some (BIT_REALM cfg) \<or> nonce_when cfg n + 300 < time_now cfg"
  shows "fst (digest_checks cfg wp1) = False"
proof (rule ccontr)
  assume "fst (digest_checks cfg wp1) \<noteq> False"
  then have "digest_checks cfg wp1 = (True, snd (digest_checks cfg wp1))"
    by (simp add: prod_eq_iff)
  from digest_checks_accepts [OF this] assms show False by auto
qed

lemma stok_plain_field:
  assumes "plain_field a"
  shows "stok (Some (a @ CHR '':'' # b)) '':''
           = (Some a, Some (dropWhile (\<lambda>c. c = CHR '':'') b))"
proof -
  from assms obtain x xs where a: "a = x # xs" and x: "x \<noteq> CHR '':''"
    by (cases a) (auto simp: plain_field_def)
  from assms have n: "\<forall>c\<in>set a. c \<noteq> CHR '':''"
    by (auto simp: plain_field_def)
  have t: "takeWhile (\<lambda>c. c \<noteq> CHR '':'') (a @ CHR '':'' # b) = a"
    using n by (simp add: takeWhile_append2)
  have d: "dropWhile (\<lambda>c. c \<noteq> CHR '':'') (a @ CHR '':'' # b) = CHR '':'' # b"
    using n by (simp add: dropWhile_append2)
  have s: "dropWhile (\<lambda>c. c = CHR '':'') (a @ CHR '':'' # b) = a @ CHR '':'' # b"
    using a x by simp
  show ?thesis
    by (simp add: s t d)
qed

lemma stok_last_plain_field:
  assumes "plain_field a"
  shows "fst (stok (Some a) '':'') = Some a"
proof -
  from assms obtain x xs where a: "a = x # xs" and x: "x \<noteq> CHR '':''"
    by (cases a) (auto simp: plain_field_def)
  from assms have n: "\<forall>c\<in>set a. c \<noteq> CHR '':''"
    by (auto simp: plain_field_def)
  have t: "takeWhile (\<lambda>c. c \<noteq> CHR '':'') a = a"
    using n by (simp add: takeWhile_eq_all_conv)
  have s: "dropWhile (\<lambda>c. c = CHR '':'') a = a"
    using a x by simp
  show ?thesis
    by (simp add: s t) (simp add: a)
qed

lemma dropWhile_colon_plain:
  assumes "plain_field a"
  shows "dropWhile (\<lambda>c. c = CHR '':'') (a @ b) = a @ b"
proof -
  from assms obtain x xs where "a = x # xs" and "x \<noteq> CHR '':''"
    by (cases a) (auto simp: plain_field_def)
  then show ?thesis by simp
qed

text \<open>
  What \<open>parseDigestNonce\<close> reads from a nonce whose decoded text has three leading fields
  that the tokenizer returns whole.
\<close>

lemma parseDigestNonce_fields:
  assumes "websDecode64 cfg n = Some (s @ '':'' @ r @ '':'' @ t @ rest)"
    and "plain_field s" and "plain_field r" and "plain_field t"
    and "rest = [] \<or> (\<exists>rest'. rest = CHR '':'' # rest')"
  shows "parseDigestNonce cfg n = (0, Some s, Some r, hextoi cfg (Some t))"
proof -
  have 1: "stok (Some (s @ CHR '':'' # r @ CHR '':'' # t @ rest)) '':''
             = (Some s, Some (r @ CHR '':'' # t @ rest))"
    using stok_plain_field [of s "r @ CHR '':'' # t @ rest", OF assms(2)]
      dropWhile_colon_plain [of r "CHR '':'' # t @ rest", OF assms(3)]
    by simp
  have 2: "stok (Some (r @ CHR '':'' # t @ rest)) '':'' = (Some r, Some (t @ rest))"
    using stok_plain_field [of r "t @ rest", OF assms(3)]
      dropWhile_colon_plain [of t rest, OF assms(4)]
    by simp
  have 3: "fst (stok (Some (t @ rest)) '':'') = Some t"
  proof (cases "rest = []")
    case True
    with stok_last_plain_field [of t, OF assms(4)] show ?thesis by simp
  next
    case False
    with assms(5) obtain rest' where "rest = CHR '':'' # rest'" by blast
    with stok_plain_field [of t rest', OF assms(4)] show ?thesis by simp
  qed
  from assms(1) show ?thesis
    by (simp add: parseDigestNonce_def Let_def 1 2 3 del: stok.simps)
qed

text \<open>The nonces the example servers mint, and what the example server decodes them to.\<close>

lemma nonce_text_other_realm:
  "nonce_text other_realm_env empty_request
     = ''5ebe2294ecd0e0f08eab7690d2a6ee69:other.org:f41dc:0''"
  by (simp add: nonce_text_def other_realm_env_def example_env_def empty_request_def
        show_arg_def hex_of_nat.simps hex_digit_def)

lemma nonce_text_earlier:
  "nonce_text earlier_env empty_request
     = ''5ebe2294ecd0e0f08eab7690d2a6ee69:example.com:f4113:0''"
  by (simp add: nonce_text_def earlier_env_def example_env_def empty_request_def
        show_arg_def hex_of_nat.simps hex_digit_def)

lemma nonce_text_colon:
  "nonce_text colon_env empty_request
     = ''5ebe2294ecd0e0f08eab7690d2a6ee69:example.com:f4240:f4240:0''"
  by (simp add: nonce_text_def colon_env_def example_env_def empty_request_def
        show_arg_def hex_of_nat.simps hex_digit_def)

lemma createDigestNonce_text:
  "fst (createDigestNonce cfg wp) = websEncode64 cfg (nonce_text cfg wp)"
  by (simp add: createDigestNonce_def nonce_text_def)

lemma createDigestNonce_other_realm:
  "fst (createDigestNonce other_realm_env empty_request) = other_realm_nonce"
  by (simp add: createDigestNonce_text nonce_text_other_realm)
     (simp add: other_realm_env_def example_env_def example_encode64_def other_realm_nonce_def)

lemma createDigestNonce_earlier:
  "fst (createDigestNonce earlier_env empty_request) = stale_nonce"
  by (simp add: createDigestNonce_text nonce_text_earlier)
     (simp add: earlier_env_def example_env_def example_encode64_def stale_nonce_def)

lemma createDigestNonce_colon:
  "fst (createDigestNonce colon_env empty_request) = colon_nonce"
  by (simp add: createDigestNonce_text nonce_text_colon)
     (simp add: colon_env_def example_env_def example_encode64_def colon_nonce_def)

lemma colon_nonce_parts:
  "parseDigestNonce example_env colon_nonce
     = (0, Some ''5ebe2294ecd0e0f08eab7690d2a6ee69'', Some ''example.com'', 1000000)"
  by (simp add: parseDigestNonce_def colon_nonce_def example_env_def example_decode64_def
        example_hextoi_def hex_value_def Let_def)

lemma calcDigest_colon:
  assumes "wp_method wp = Some ''GET''" and "digestUri wp = Some ''/index.html''"
    and "qop wp = Some ''auth''" and "nonce wp = Some colon_nonce"
    and "nc wp = Some ''00000001''" and "cnonce wp = Some ''0a4f113b''"
  shows "calcDigest example_env wp None (Some ''b1726872c344b6dc8365b774f8fd6412'')
           = ''636b0d010e292785d82db28ebb2c1e3d''"
  using assms
  by (simp add: calcDigest_def sclone_def smatch_def Let_def)
     (simp add: example_env_def example_md5_def show_arg_def colon_nonce_def)

lemma scan_colon:
  "scan_pairs cfg (buffer_of colon_header) 0 wp = Some (colon_fields wp)"
  by (simp add: scan_pairs.simps scan_pair_def scan_while.simps unquote.simps rd_def wr_def
        cstr_at_def buffer_of_def NUL_def isspace_def digest_field_def tolower_def
        scaselesscmp_eq_def sclone_def Let_def colon_header_def colon_fields_def
        colon_nonce_def)

lemma parseDigestDetails_colon:
  assumes "authDetails wp = Some colon_header" and "route wp = Some p" and "user wp = None"
    and "wp_method wp = Some ''GET''"
  shows "parseDigestDetails example_env wp
           = Some (True, (colon_fields wp)\<lparr>user := Some alice,
                            digest := Some ''636b0d010e292785d82db28ebb2c1e3d''\<rparr>)"
proof -
  have "digest_checks example_env (colon_fields wp)
          = (True, (colon_fields wp)\<lparr>user := Some alice,
                      digest := Some ''636b0d010e292785d82db28ebb2c1e3d''\<rparr>)"
  proof (rule digest_checks_example [where n = colon_nonce and t = 1000000])
    show "parseDigestNonce example_env colon_nonce
            = (0, Some ''5ebe2294ecd0e0f08eab7690d2a6ee69'', Some ''example.com'', 1000000)"
      by (rule colon_nonce_parts)
    show "calcDigest example_env ((colon_fields wp)\<lparr>user := Some alice\<rparr>) None
            (Some ''b1726872c344b6dc8365b774f8fd6412'') = ''636b0d010e292785d82db28ebb2c1e3d''"
      by (rule calcDigest_colon) (simp_all add: colon_fields_def assms)
  qed (simp_all add: colon_fields_def assms)
  with assms(1) show ?thesis
    by (simp add: parseDigestDetails_def sclone_def scan_colon)
qed

text \<open>
  C5. (1) When \<open>parseDigestDetails\<close> accepts a request, the realm \<open>parseDigestNonce\<close> reads
  from the presented nonce is the configured realm and the time it reads is at most 300
  seconds before \<open>time(0)\<close>. (2) The checks after the scan fail for every request whose nonce
  reads as another realm (or none) or as a time more than 300 seconds back. (3) For a nonce
  that decodes to \<open>s:r:t\<close>, followed by nothing or by a colon and more, with \<open>s\<close>, \<open>r\<close> and \<open>t\<close> not
  empty and free of colons, the realm read is \<open>r\<close> and the time read is \<open>hextoi(t)\<close>. (4) Let a
  server \<open>cfg'\<close> mint a nonce with \<open>createDigestNonce\<close>, and let the text it formats be
  \<open>s:R:t\<close> and the rest as in (3), \<open>R\<close> the realm of \<open>cfg'\<close>; let the checking server \<open>cfg\<close>
  decode the nonce to the text that was encoded, and read the issue time back from \<open>t\<close>.
  Then the checks of \<open>cfg\<close> fail for a request presenting that nonce when the realm of
  \<open>cfg'\<close> is not the realm of \<open>cfg\<close>, or when more than 300 seconds have passed since the
  issue time.
\<close>

theorem parseDigestDetails_nonce_realm_and_age:
  "(parseDigestDetails cfg wp = Some (True, wp') \<longrightarrow>
      (\<exists>n. nonce wp' = Some n \<and> nonce_realm cfg n = Some (BIT_REALM cfg)
            \<and> time_now cfg \<le> nonce_when cfg n + 300))
   \<and> (nonce wp1 = Some n
        \<and> (nonce_realm cfg n \<noteq> Some (BIT_REALM cfg) \<or> nonce_when cfg n + 300 < time_now cfg)
      \<longrightarrow> fst (digest_checks cfg wp1) = False)
   \<and> (websDecode64 cfg m = Some (s @ '':'' @ r @ '':'' @ t @ rest)
        \<and> plain_field s \<and> plain_field r \<and> plain_field t
        \<and> (rest = [] \<or> (\<exists>rest'. rest = CHR '':'' # rest'))
      \<longrightarrow> nonce_realm cfg m = Some r \<and> nonce_when cfg m = hextoi cfg (Some t))
   \<and> (nonce_text cfg' wp_mint = s' @ '':'' @ BIT_REALM cfg' @ '':'' @ t' @ rest'
        \<and> plain_field s' \<and> plain_field (BIT_REALM cfg') \<and> plain_field t'
        \<and> (rest' = [] \<or> (\<exists>c. rest' = CHR '':'' # c))
        \<and> websDecode64 cfg (websEncode64 cfg' (nonce_text cfg' wp_mint)) = Some (nonce_text cfg' wp_mint)
        \<and> hextoi cfg (Some t') = time_now cfg'
        \<and> nonce wp_pres = Some (fst (createDigestNonce cfg' wp_mint))
        \<and> (BIT_REALM cfg' \<noteq> BIT_REALM cfg \<or> time_now cfg' + 300 < time_now cfg)
      \<longrightarrow> fst (digest_checks cfg wp_pres) = False)"
proof (intro conjI impI)
  assume a: "parseDigestDetails cfg wp = Some (True, wp')"
  then obtain w where "digest_checks cfg w = (True, wp')"
    by (auto simp: parseDigestDetails_def split: option.splits)
  from digest_checks_accepts [OF this]
  show "\<exists>n. nonce wp' = Some n \<and> nonce_realm cfg n = Some (BIT_REALM cfg)
            \<and> time_now cfg \<le> nonce_when cfg n + 300"
    by blast
next
  assume "nonce wp1 = Some n
        \<and> (nonce_realm cfg n \<noteq> Some (BIT_REALM cfg) \<or> nonce_when cfg n + 300 < time_now cfg)"
  then show "fst (digest_checks cfg wp1) = False"
    using digest_checks_rejects by blast
next
  assume a: "websDecode64 cfg m = Some (s @ '':'' @ r @ '':'' @ t @ rest)
        \<and> plain_field s \<and> plain_field r \<and> plain_field t
        \<and> (rest = [] \<or> (\<exists>rest'. rest = CHR '':'' # rest'))"
  then have "parseDigestNonce cfg m = (0, Some s, Some r, hextoi cfg (Some t))"
    by (intro parseDigestNonce_fields) (elim conjE, assumption)+
  then show "nonce_realm cfg m = Some r" "nonce_when cfg m = hextoi cfg (Some t)"
    by (simp_all add: nonce_realm_def nonce_when_def)
next
  assume a: "nonce_text cfg' wp_mint = s' @ '':'' @ BIT_REALM cfg' @ '':'' @ t' @ rest'
        \<and> plain_field s' \<and> plain_field (BIT_REALM cfg') \<and> plain_field t'
        \<and> (rest' = [] \<or> (\<exists>c. rest' = CHR '':'' # c))
        \<and> websDecode64 cfg (websEncode64 cfg' (nonce_text cfg' wp_mint)) = Some (nonce_text cfg' wp_mint)
        \<and> hextoi cfg (Some t') = time_now cfg'
        \<and> nonce wp_pres = Some (fst (createDigestNonce cfg' wp_mint))
        \<and> (BIT_REALM cfg' \<noteq> BIT_REALM cfg \<or> time_now cfg' + 300 < time_now cfg)"
  define k where "k = fst (createDigestNonce cfg' wp_mint)"
  have k: "k = websEncode64 cfg' (nonce_text cfg' wp_mint)"
    by (simp add: k_def createDigestNonce_text)
  from a have e: "nonce_text cfg' wp_mint = s' @ '':'' @ BIT_REALM cfg' @ '':'' @ t' @ rest'"
    by (elim conjE)
  from a have "websDecode64 cfg (websEncode64 cfg' (nonce_text cfg' wp_mint))
                  = Some (nonce_text cfg' wp_mint)"
    by (elim conjE)
  then have "websDecode64 cfg k = Some (nonce_text cfg' wp_mint)"
    by (simp only: k)
  then have d: "websDecode64 cfg k = Some (s' @ '':'' @ BIT_REALM cfg' @ '':'' @ t' @ rest')"
    by (simp only: e)
  from a have f: "plain_field s'" "plain_field (BIT_REALM cfg')" "plain_field t'"
    "rest' = [] \<or> (\<exists>c. rest' = CHR '':'' # c)"
    by simp_all
  have p: "parseDigestNonce cfg k = (0, Some s', Some (BIT_REALM cfg'), hextoi cfg (Some t'))"
    by (rule parseDigestNonce_fields [OF d f])
  from a have h: "hextoi cfg (Some t') = time_now cfg'" by simp
  from a have w: "nonce wp_pres = Some k" by (simp add: k_def)
  from a have "BIT_REALM cfg' \<noteq> BIT_REALM cfg \<or> time_now cfg' + 300 < time_now cfg" by simp
  then have "nonce_realm cfg k \<noteq> Some (BIT_REALM cfg) \<or> nonce_when cfg k + 300 < time_now cfg"
    by (simp add: nonce_realm_def nonce_when_def p h)
  with w show "fst (digest_checks cfg wp_pres) = False"
    by (rule digest_checks_rejects)
qed

theorem parseDigestDetails_nonce_realm_and_age_witness:
  "parseDigestDetails example_env minted_request
     = Some (True, (minted_fields minted_request)\<lparr>user := Some alice,
                      digest := Some ''4f2bc02fea35421abaa74e0574ac1a5b''\<rparr>)
   \<and> nonce_realm example_env minted_nonce = Some (BIT_REALM example_env)
   \<and> time_now example_env \<le> nonce_when example_env minted_nonce + 300
   \<and> nonce_when example_env stale_nonce + 300 < time_now example_env
   \<and> fst (digest_checks example_env ((minted_fields minted_request)\<lparr>nonce := Some stale_nonce\<rparr>))
       = False
   \<and> nonce_realm example_env other_realm_nonce \<noteq> Some (BIT_REALM example_env)
   \<and> fst (digest_checks example_env
             ((minted_fields minted_request)\<lparr>nonce := Some other_realm_nonce\<rparr>)) = False
   \<and> websDecode64 example_env minted_nonce
       = Some (''5ebe2294ecd0e0f08eab7690d2a6ee69'' @ '':'' @ ''example.com'' @ '':'' @ ''f41dc''
               @ '':0'')
   \<and> plain_field ''5ebe2294ecd0e0f08eab7690d2a6ee69'' \<and> plain_field ''example.com''
   \<and> plain_field ''f41dc''
   \<and> nonce_realm example_env minted_nonce = Some ''example.com''
   \<and> nonce_when example_env minted_nonce = hextoi example_env (Some ''f41dc'')
   \<and> nonce_text other_realm_env empty_request
       = ''5ebe2294ecd0e0f08eab7690d2a6ee69'' @ '':'' @ BIT_REALM other_realm_env @ '':''
         @ ''f41dc'' @ '':0''
   \<and> plain_field (BIT_REALM other_realm_env)
   \<and> websDecode64 example_env (websEncode64 other_realm_env
         (nonce_text other_realm_env empty_request))
       = Some (nonce_text other_realm_env empty_request)
   \<and> hextoi example_env (Some ''f41dc'') = time_now other_realm_env
   \<and> BIT_REALM other_realm_env \<noteq> BIT_REALM example_env
   \<and> fst (digest_checks example_env
             ((minted_fields minted_request)
                \<lparr>nonce := Some (fst (createDigestNonce other_realm_env empty_request))\<rparr>)) = False
   \<and> nonce_text earlier_env empty_request
       = ''5ebe2294ecd0e0f08eab7690d2a6ee69'' @ '':'' @ BIT_REALM earlier_env @ '':''
         @ ''f4113'' @ '':0''
   \<and> plain_field (BIT_REALM earlier_env) \<and> plain_field ''f4113''
   \<and> websDecode64 example_env (websEncode64 earlier_env (nonce_text earlier_env empty_request))
       = Some (nonce_text earlier_env empty_request)
   \<and> hextoi example_env (Some ''f4113'') = time_now earlier_env
   \<and> time_now earlier_env + 300 < time_now example_env
   \<and> fst (digest_checks example_env
             ((minted_fields minted_request)
                \<lparr>nonce := Some (fst (createDigestNonce earlier_env empty_request))\<rparr>)) = False"
proof -
  have p: "parseDigestDetails example_env minted_request
     = Some (True, (minted_fields minted_request)\<lparr>user := Some alice,
                      digest := Some ''4f2bc02fea35421abaa74e0574ac1a5b''\<rparr>)"
    by (rule parseDigestDetails_minted [of _ 0])
       (simp_all add: minted_request_def empty_request_def)
  have t: "time_now example_env = 1000000" "BIT_REALM example_env = ''example.com''"
    "time_now other_realm_env = 999900" "BIT_REALM other_realm_env = ''other.org''"
    "time_now earlier_env = 999699" "BIT_REALM earlier_env = ''example.com''"
    by (simp_all add: example_env_def other_realm_env_def earlier_env_def)
  from parseDigestDetails_nonce_realm_and_age
         [of example_env minted_request
             "(minted_fields minted_request)\<lparr>user := Some alice,
                      digest := Some ''4f2bc02fea35421abaa74e0574ac1a5b''\<rparr>"]
       p
  have 1: "nonce_realm example_env minted_nonce = Some (BIT_REALM example_env)
           \<and> time_now example_env \<le> nonce_when example_env minted_nonce + 300"
    by (simp add: minted_fields_def)
  have 2: "nonce_when example_env stale_nonce + 300 < time_now example_env"
    by (simp add: nonce_when_def stale_nonce_parts t)
  with parseDigestDetails_nonce_realm_and_age
         [of example_env _ _ "(minted_fields minted_request)\<lparr>nonce := Some stale_nonce\<rparr>"
             stale_nonce]
  have 3: "fst (digest_checks example_env
                  ((minted_fields minted_request)\<lparr>nonce := Some stale_nonce\<rparr>)) = False"
    by simp
  have 4: "nonce_realm example_env other_realm_nonce \<noteq> Some (BIT_REALM example_env)"
    by (simp add: nonce_realm_def other_realm_nonce_parts t)
  with parseDigestDetails_nonce_realm_and_age
         [of example_env _ _ "(minted_fields minted_request)\<lparr>nonce := Some other_realm_nonce\<rparr>"
             other_realm_nonce]
  have 5: "fst (digest_checks example_env
                  ((minted_fields minted_request)\<lparr>nonce := Some other_realm_nonce\<rparr>)) = False"
    by simp
  have f: "plain_field ''5ebe2294ecd0e0f08eab7690d2a6ee69''" "plain_field ''example.com''"
    "plain_field ''f41dc''" "plain_field ''other.org''" "plain_field ''f4113''"
    by (simp_all add: plain_field_def)
  from f t have g: "plain_field (BIT_REALM other_realm_env)" "plain_field (BIT_REALM earlier_env)"
    by simp_all
  have 6: "websDecode64 example_env minted_nonce
       = Some (''5ebe2294ecd0e0f08eab7690d2a6ee69'' @ '':'' @ ''example.com'' @ '':'' @ ''f41dc''
               @ '':0'')"
    by (simp add: example_env_def example_decode64_def minted_nonce_def)
  have 7: "nonce_realm example_env minted_nonce = Some ''example.com''
           \<and> nonce_when example_env minted_nonce = hextoi example_env (Some ''f41dc'')"
    by (rule parseDigestDetails_nonce_realm_and_age
               [where cfg = example_env and m = minted_nonce
                  and s = "''5ebe2294ecd0e0f08eab7690d2a6ee69''" and r = "''example.com''"
                  and t = "''f41dc''" and rest = "'':0''",
                THEN conjunct2, THEN conjunct2, THEN conjunct1, THEN mp])
       (simp add: 6 [simplified] f)
  have 8: "nonce_text other_realm_env empty_request
       = ''5ebe2294ecd0e0f08eab7690d2a6ee69'' @ '':'' @ BIT_REALM other_realm_env @ '':''
         @ ''f41dc'' @ '':0''"
    by (simp add: nonce_text_other_realm t)
  have 9: "websDecode64 example_env (websEncode64 other_realm_env
         (nonce_text other_realm_env empty_request))
       = Some (nonce_text other_realm_env empty_request)"
    by (simp add: nonce_text_other_realm)
       (simp add: example_env_def other_realm_env_def example_encode64_def example_decode64_def)
  have 10: "hextoi example_env (Some ''f41dc'') = time_now other_realm_env"
    by (simp add: t) (simp add: example_env_def example_hextoi_def hex_value_def)
  have 11: "BIT_REALM other_realm_env \<noteq> BIT_REALM example_env"
    by (simp add: t)
  have 12: "fst (digest_checks example_env
             ((minted_fields minted_request)
                \<lparr>nonce := Some (fst (createDigestNonce other_realm_env empty_request))\<rparr>)) = False"
    by (rule parseDigestDetails_nonce_realm_and_age
               [where cfg = example_env and cfg' = other_realm_env and wp_mint = empty_request
                  and s' = "''5ebe2294ecd0e0f08eab7690d2a6ee69''" and t' = "''f41dc''"
                  and rest' = "'':0''",
                THEN conjunct2, THEN conjunct2, THEN conjunct2, THEN mp])
       (intro conjI, rule 8, rule f, rule g, rule f, simp, rule 9, rule 10, simp, simp add: 11)
  have 13: "nonce_text earlier_env empty_request
       = ''5ebe2294ecd0e0f08eab7690d2a6ee69'' @ '':'' @ BIT_REALM earlier_env @ '':''
         @ ''f4113'' @ '':0''"
    by (simp add: nonce_text_earlier t)
  have 14: "websDecode64 example_env (websEncode64 earlier_env
         (nonce_text earlier_env empty_request))
       = Some (nonce_text earlier_env empty_request)"
    by (simp add: nonce_text_earlier)
       (simp add: example_env_def earlier_env_def example_encode64_def example_decode64_def)
  have 15: "hextoi example_env (Some ''f4113'') = time_now earlier_env"
    by (simp add: t) (simp add: example_env_def example_hextoi_def hex_value_def)
  have 16: "time_now earlier_env + 300 < time_now example_env"
    by (simp add: t)
  have 17: "fst (digest_checks example_env
             ((minted_fields minted_request)
                \<lparr>nonce := Some (fst (createDigestNonce earlier_env empty_request))\<rparr>)) = False"
    by (rule parseDigestDetails_nonce_realm_and_age
               [where cfg = example_env and cfg' = earlier_env and wp_mint = empty_request
                  and s' = "''5ebe2294ecd0e0f08eab7690d2a6ee69''" and t' = "''f4113''"
                  and rest' = "'':0''",
                THEN conjunct2, THEN conjunct2, THEN conjunct2, THEN mp])
       (intro conjI, rule 13, rule f, rule g, rule f, simp, rule 14, rule 15, simp, simp add: 16)
  show ?thesis
    by (intro conjI)
       (rule p 1 [THEN conjunct1] 1 [THEN conjunct2] 2 3 4 5 6 f g 7 [THEN conjunct1]
          7 [THEN conjunct2] 8 9 10 11 12 13 14 15 16 17)+
qed

text \<open>
  A realm with a colon in it is cut at the colon when the nonce is read back. The server
  \<open>colon_env\<close> has the realm \<open>example.com:f4240\<close> and mints \<open>colon_nonce\<close>; \<open>example_env\<close>
  has the realm \<open>example.com\<close>, reads \<open>example.com\<close> and the time \<open>f4240\<close> from that nonce,
  and \<open>parseDigestDetails\<close> accepts the request that presents it.
\<close>

theorem parseDigestDetails_colon_realm_counterexample:
  "BIT_REALM colon_env = ''example.com:f4240''
   \<and> BIT_REALM example_env = ''example.com''
   \<and> nonce_text colon_env empty_request
       = ''5ebe2294ecd0e0f08eab7690d2a6ee69:example.com:f4240:f4240:0''
   \<and> fst (createDigestNonce colon_env empty_request) = colon_nonce
   \<and> nonce (colon_fields colon_request) = Some colon_nonce
   \<and> nonce_realm example_env colon_nonce = Some ''example.com''
   \<and> parseDigestDetails example_env colon_request
       = Some (True, (colon_fields colon_request)\<lparr>user := Some alice,
                        digest := Some ''636b0d010e292785d82db28ebb2c1e3d''\<rparr>)"
proof -
  have "parseDigestDetails example_env colon_request
       = Some (True, (colon_fields colon_request)\<lparr>user := Some alice,
                        digest := Some ''636b0d010e292785d82db28ebb2c1e3d''\<rparr>)"
    by (rule parseDigestDetails_colon [of _ 0])
       (simp_all add: colon_request_def empty_request_def)
  moreover have "BIT_REALM colon_env = ''example.com:f4240''"
    "BIT_REALM example_env = ''example.com''"
    by (simp_all add: colon_env_def example_env_def)
  moreover have "nonce (colon_fields colon_request) = Some colon_nonce"
    by (simp add: colon_fields_def)
  moreover have "nonce_realm example_env colon_nonce = Some ''example.com''"
    by (simp add: nonce_realm_def colon_nonce_parts)
  moreover note nonce_text_colon createDigestNonce_colon
  ultimately show ?thesis by (intro conjI)
qed

section \<open>Properties of binding a route (C2)\<close>

text \<open>
  For a type other than \<open>basic\<close> and \<open>digest\<close>, \<open>websSetRouteAuth\<close> stores null \<open>parseAuth\<close> and
  \<open>askLogin\<close> pointers, and as \<open>authType\<close> what \<open>sclone\<close> returns for the null pointer.
\<close>

lemma websSetRouteAuth_other_type:
  assumes "auth \<noteq> ''basic''" and "auth \<noteq> ''digest''"
  shows "websSetRouteAuth cfg r auth
           = r\<lparr>route_authType := sclone_null cfg, route_askLogin := None,
                route_parseAuth := None\<rparr>"
  using assms by (simp add: websSetRouteAuth_def smatch_def sclone_def)

text \<open>A route whose \<open>authType\<close> is null admits every request, untouched.\<close>

lemma websAuthenticate_null_authType:
  assumes "route wp = Some p" and "route_authType (routes p) = None"
  shows "websAuthenticate cfg routes wp = Some (True, wp)"
  using assms by (simp add: websAuthenticate_def)

text \<open>
  Where \<open>sclone\<close> maps the null pointer to the null pointer, the two combine: every request
  on a route bound to such a type is admitted with no check.
\<close>

lemma websAuthenticate_other_type_null_sclone:
  assumes "sclone_null cfg = None" and "auth \<noteq> ''basic''" and "auth \<noteq> ''digest''"
    and "route wp = Some p" and "routes p = websSetRouteAuth cfg r auth"
  shows "websAuthenticate cfg routes wp = Some (True, wp)"
  using assms
  by (simp add: websAuthenticate_null_authType websSetRouteAuth_other_type)

text \<open>
  Where \<open>sclone\<close> maps the null pointer to a string (the empty one, say) and \<open>autoLogin\<close> is
  off, the route is gated: a request with no cookie and no \<open>Authorization\<close> header is
  answered with 401.
\<close>

lemma websAuthenticate_other_type_nonnull_sclone:
  assumes "sclone_null cfg = Some s" and "autoLogin cfg = 0"
    and "auth \<noteq> ''basic''" and "auth \<noteq> ''digest''"
    and "route wp = Some p" and "routes p = websSetRouteAuth cfg r auth"
    and "cookie wp = None" and "authType wp = None" and "authDetails wp = None"
    and "username wp = None"
  shows "websAuthenticate cfg routes wp
           = Some (False, wp\<lparr>events := events wp @ [Sent_redirect_status 401]\<rparr>)"
  using assms
  by (simp add: websAuthenticate_def websSetRouteAuth_other_type cached_identity_def
        authenticate_uncached_def askLogin_if_set_def websRedirectByStatus_def
        HTTP_CODE_UNAUTHORIZED_def)

end
